theory Spec2Isabelle
  imports Main
begin

section \<open>Data model (umami.go, umami_worker.go)\<close>

text \<open>
  \<^verbatim>\<open>time.Duration\<close> is a signed 64-bit count of nanoseconds. Every duration
  the program builds is far below \<open>2^63\<close>, so it is modelled as an \<open>int\<close> of
  nanoseconds.
\<close>

type_synonym Duration = int

definition Second :: Duration where
  "Second = 1000000000"

definition Hour :: Duration where
  "Hour = 3600 * Second"

text \<open>The plugin configuration, field by field as in \<^verbatim>\<open>type Config struct\<close>.\<close>

record Config =
  Disabled :: bool
  Debug :: bool
  QueueSize :: int
  BatchSize :: int
  BatchMaxWait :: Duration
  Host :: string
  APIKey :: string
  Websites :: "(string \<times> string) list"
  TrackErrors :: bool
  TrackAllResources :: bool
  TrackExtensions :: "string list"
  IgnoreUserAgents :: "string list"
  IgnoreURLs :: "string list"
  IgnoreIPs :: "string list"
  HeaderIp :: string

definition CreateConfig :: Config where
  "CreateConfig =
     \<lparr>Disabled = False, Debug = False, QueueSize = 1000, BatchSize = 20,
      BatchMaxWait = 5 * Second, Host = '''', APIKey = '''', Websites = [],
      TrackErrors = False, TrackAllResources = False, TrackExtensions = [],
      IgnoreUserAgents = [], IgnoreURLs = [], IgnoreIPs = [],
      HeaderIp = ''X-Real-Ip''\<rparr>"

text \<open>\<^verbatim>\<open>type RybbitEvent struct\<close> and \<^verbatim>\<open>type SendBody struct\<close>.\<close>

record RybbitEvent =
  evAPIKey :: string
  evSiteID :: string
  evType :: string
  evPathname :: string
  evHostname :: string
  evIP :: string
  evUserAgent :: string
  evLanguage :: string
  evEventName :: string
  evReferrer :: string
  evProperties :: string

record SendBody =
  Payload :: RybbitEvent
  sbType :: string

text \<open>
  The part of \<^verbatim>\<open>*http.Request\<close> the plugin reads. \<open>HeaderGet\<close> is
  \<^verbatim>\<open>req.Header.Get\<close>: it yields the empty string for an absent header.
\<close>

record Request =
  ReqHost :: string
  RemoteAddr :: string
  URLPath :: string
  URLString :: string
  HeaderGet :: "string \<Rightarrow> string"

definition UserAgent :: "Request \<Rightarrow> string" where
  "UserAgent req = HeaderGet req ''User-Agent''"

definition Referer :: "Request \<Rightarrow> string" where
  "Referer req = HeaderGet req ''Referer''"

text \<open>
  What \<^verbatim>\<open>sendRequest\<close> is called with: the URL and the value handed over as
  body (\<^verbatim>\<open>nil\<close> for the health probe). The body argument is an interface
  value, so the model keeps apart a bare event and a \<^verbatim>\<open>SendBody\<close> envelope.
\<close>

datatype json_body = JEvent RybbitEvent | JEnvelope SendBody

datatype http_method = GET | POST

record http_request =
  reqMethod :: http_method
  reqURL :: string
  reqBody :: "json_body option"

record http_response =
  Status :: string
  Body :: string

text \<open>
  A call into a collaborator either returns a value, returns an \<^verbatim>\<open>error\<close>,
  or faults (a Go panic).
\<close>

datatype 'a result = Ok 'a | Err string | Panic string

text \<open>
  Diagnostics. \<^verbatim>\<open>h.error\<close> prints the message, \<^verbatim>\<open>h.debug\<close> prints a
  \<^verbatim>\<open>Printf\<close> format with its arguments; the entry keeps format and arguments
  apart. The time stamp and the middleware name of each line are left out.
\<close>

datatype fmt_arg = AInt int | AStr string | ADur Duration

datatype log_entry = ERR string | DBG string "fmt_arg list"

text \<open>
  The receiving end of the channel \<^verbatim>\<open>queue\<close>. Its only receiver is the worker,
  in the \<^verbatim>\<open>select\<close> of its loop. \<open>Blocked\<close>: the worker is blocked in that
  \<^verbatim>\<open>select\<close>, waiting; a send then passes its event to the worker directly,
  without going through the buffer. \<open>Handed event\<close>: a sender has passed \<open>event\<close>
  to the blocked worker, which has not run since. \<open>Absent\<close>: no goroutine is
  blocked in a receive (the worker is not running, or is busy).
\<close>

datatype receiver_state = Absent | Blocked | Handed RybbitEvent

text \<open>
  \<^verbatim>\<open>type UmamiFeeder struct\<close>. The channel \<^verbatim>\<open>queue\<close> is its buffer \<open>queue\<close>,
  the list of buffered events, oldest first, its capacity \<open>queueCap\<close>, and its
  receiving end \<open>receiver\<close>. The last three fields are not fields of the
  struct: they record the effects of the plugin on the outside, namely the
  lines written through \<^verbatim>\<open>logHandler\<close>, the requests handed to
  \<^verbatim>\<open>sendRequest\<close>, and the delays the retry loop has waited for.
\<close>

record ('p, 'r) UmamiFeeder =
  name :: string
  isDebug :: bool
  isDisabled :: bool
  queue :: "RybbitEvent list"
  queueCap :: nat
  receiver :: receiver_state
  batchSize :: int
  batchMaxWait :: Duration
  host :: string
  apiKey :: string
  websites :: "(string \<times> string) list"
  createNewWebsites :: bool
  trackErrors :: bool
  trackAllResources :: bool
  trackExtensions :: "string list"
  ignoreUserAgents :: "string list"
  ignoreRegexps :: "'r list"
  ignorePrefixes :: "'p list"
  headerIp :: string
  logged :: "log_entry list"
  wire :: "http_request list"
  slept :: "Duration list"

text \<open>
  Library and helper functions the plugin calls but does not define in the files
  at hand: \<^verbatim>\<open>net/netip\<close> (\<open>ParseAddr\<close>, \<open>AddrString\<close>, \<open>ParsePrefix\<close>,
  \<open>PrefixIsValid\<close>, \<open>PrefixContains\<close>), \<^verbatim>\<open>regexp\<close> (\<open>RegexpCompile\<close>,
  \<open>MatchString\<close>), the plugin's own helpers \<open>parseDomainFromHost\<close>,
  \<open>extractRemoteIP\<close>, \<open>parseAcceptLanguage\<close>, and the network behind
  \<^verbatim>\<open>sendRequest\<close>: \<open>network n r\<close> is the answer to request \<open>r\<close> when \<open>n\<close>
  requests have been issued before it. The Go runtime is a parameter as well:
  \<open>makeChan n\<close> and \<open>makeSlice n\<close> tell what \<^verbatim>\<open>make(chan *RybbitEvent, n)\<close> and
  \<^verbatim>\<open>make([]*SendBody, 0, n)\<close> do, \<open>None\<close> when the value is built and \<open>Some p\<close>
  when the call panics with the value \<open>p\<close>, as it does for a negative \<open>n\<close> and
  for an \<open>n\<close> beyond what the runtime can allocate.
\<close>

record ('a, 'p, 'r) externals =
  ParseAddr :: "string \<Rightarrow> 'a option"
  AddrString :: "'a \<Rightarrow> string"
  ParsePrefix :: "string \<Rightarrow> string + 'p"
  PrefixIsValid :: "'p \<Rightarrow> bool"
  PrefixContains :: "'p \<Rightarrow> 'a \<Rightarrow> bool"
  RegexpCompile :: "string \<Rightarrow> string + 'r"
  MatchString :: "'r \<Rightarrow> string \<Rightarrow> bool"
  parseDomainFromHost :: "string \<Rightarrow> string"
  extractRemoteIP :: "Request \<Rightarrow> string"
  parseAcceptLanguage :: "string \<Rightarrow> string"
  network :: "nat \<Rightarrow> http_request \<Rightarrow> http_response result"
  makeChan :: "int \<Rightarrow> string option"
  makeSlice :: "int \<Rightarrow> string option"

section \<open>Diagnostics and the outbound call\<close>

definition error :: "('p, 'r) UmamiFeeder \<Rightarrow> string \<Rightarrow> ('p, 'r) UmamiFeeder" where
  "error h message = h\<lparr>logged := logged h @ [ERR message]\<rparr>"

definition debug ::
  "('p, 'r) UmamiFeeder \<Rightarrow> string \<Rightarrow> fmt_arg list \<Rightarrow> ('p, 'r) UmamiFeeder" where
  "debug h format v = (if isDebug h then h\<lparr>logged := logged h @ [DBG format v]\<rparr> else h)"

text \<open>
  Modelled from the spec: \<^verbatim>\<open>sendRequest\<close> is not among the source files. The
  spec gives the probe as an HTTP GET of \<open>{host}/health\<close> and the delivery as an
  HTTP POST of a JSON body to \<open>{host}/api/track\<close>; so a call without a body is a
  GET and a call with a body is a POST of that body. The call is recorded on
  \<open>wire\<close> and answered by \<open>network\<close>.
\<close>

definition mkRequest :: "string \<Rightarrow> json_body option \<Rightarrow> http_request" where
  "mkRequest url body =
     \<lparr>reqMethod = (case body of None \<Rightarrow> GET | Some _ \<Rightarrow> POST), reqURL = url, reqBody = body\<rparr>"

definition sendRequest ::
  "('a, 'p, 'r) externals \<Rightarrow> ('p, 'r) UmamiFeeder \<Rightarrow> string \<Rightarrow> json_body option \<Rightarrow>
     ('p, 'r) UmamiFeeder \<times> http_response result" where
  "sendRequest X h url body =
     (h\<lparr>wire := wire h @ [mkRequest url body]\<rparr>,
      network X (length (wire h)) (mkRequest url body))"

section \<open>Construction and the connection retry loop (umami.go)\<close>

text \<open>
  \<^verbatim>\<open>New\<close>. A panic of \<^verbatim>\<open>make(chan *RybbitEvent, config.QueueSize)\<close> leaves
  \<^verbatim>\<open>New\<close> with that panic (\<open>Inl\<close>). The second component of the result tells
  whether the \<^verbatim>\<open>retryConnection\<close> goroutine is launched.
\<close>

definition New ::
  "('a, 'p, 'r) externals \<Rightarrow> Config \<Rightarrow> string \<Rightarrow> string + (('p, 'r) UmamiFeeder \<times> bool)" where
  "New X config nm =
     (case makeChan X (QueueSize config) of
        Some p \<Rightarrow> Inl p
      | None \<Rightarrow>
        let h = \<lparr>name = nm, isDebug = Debug config, isDisabled = Disabled config,
                 queue = [], queueCap = nat (QueueSize config), receiver = Absent,
                 batchSize = BatchSize config, batchMaxWait = 1 * Second,
                 host = Host config, apiKey = APIKey config, websites = Websites config,
                 createNewWebsites = False,
                 trackErrors = TrackErrors config,
                 trackAllResources = TrackAllResources config,
                 trackExtensions = TrackExtensions config,
                 ignoreUserAgents = IgnoreUserAgents config,
                 ignoreRegexps = [], ignorePrefixes = [],
                 headerIp = HeaderIp config,
                 logged = [], wire = [], slept = []\<rparr>
        in if \<not> isDisabled h then
             let h1 = h\<lparr>isDisabled := True\<rparr>;
                 h2 = debug h1 ''batchSize %d'' [AInt (batchSize h1)];
                 h3 = debug h2 ''batchMaxWait %v'' [ADur (batchMaxWait h2)]
             in Inr (h3, True)
           else Inr (h, False))"

text \<open>
  The delay computed at the top of each iteration of \<^verbatim>\<open>retryConnection\<close>.
  The source computes \<^verbatim>\<open>time.Duration(15*math.Pow(2, float64(retryAttempt)))\<close>
  for \<open>0 < retryAttempt < 8\<close>; the powers of two up to \<open>2^7\<close> and their products
  with 15 are exact in floating point, so the conversion yields \<open>15 * 2^retryAttempt\<close>.
\<close>

definition maxRetryInterval :: Duration where
  "maxRetryInterval = Hour"

definition currentDelay :: "nat \<Rightarrow> Duration" where
  "currentDelay retryAttempt =
     (if retryAttempt = 0 then 0
      else if retryAttempt < 8 then (15 * 2 ^ retryAttempt) * Second
      else maxRetryInterval)"

definition connect ::
  "('a, 'p, 'r) externals \<Rightarrow> ('p, 'r) UmamiFeeder \<Rightarrow> ('p, 'r) UmamiFeeder \<times> unit result" where
  "connect X h =
     (if host h = '''' then (h, Err ''`host` is not set'')
      else if apiKey h = '''' then (h, Err ''`apiKey` should be set'')
      else if length (websites h) = 0 then (h, Err ''`websites` should not be empty'')
      else
        case sendRequest X h (host h @ ''/health'') None of
          (h', Err e) \<Rightarrow> (h', Err (''Failed to get health for rybbit: '' @ e))
        | (h', Panic p) \<Rightarrow> (h', Panic p)
        | (h', Ok _) \<Rightarrow> (h', Ok ()))"

text \<open>
  \<^verbatim>\<open>verifyConfig\<close>: the two loops. A prefix that parses only with \<open>/32\<close>
  appended is accepted; the first entry that fails ends the function with an
  error, the entries before it staying appended.
\<close>

fun verifyIgnoreIPs ::
  "('a, 'p, 'r) externals \<Rightarrow> string list \<Rightarrow> ('p, 'r) UmamiFeeder \<Rightarrow>
     ('p, 'r) UmamiFeeder \<times> string option" where
  "verifyIgnoreIPs X [] h = (h, None)"
| "verifyIgnoreIPs X (ignoreIp # rest) h =
     (let parsed = (case ParsePrefix X ignoreIp of
                      Inl _ \<Rightarrow> ParsePrefix X (ignoreIp @ ''/32'')
                    | Inr nw \<Rightarrow> Inr nw)
      in case parsed of
           Inl e \<Rightarrow> (h, Some (''invalid ignoreIp given '' @ ignoreIp @ '': '' @ e))
         | Inr nw \<Rightarrow>
             if \<not> PrefixIsValid X nw
             then (h, Some (''invalid ignoreIp given '' @ ignoreIp @ '': %!w(<nil>)''))
             else verifyIgnoreIPs X rest (h\<lparr>ignorePrefixes := ignorePrefixes h @ [nw]\<rparr>))"

fun verifyIgnoreURLs ::
  "('a, 'p, 'r) externals \<Rightarrow> string list \<Rightarrow> ('p, 'r) UmamiFeeder \<Rightarrow>
     ('p, 'r) UmamiFeeder \<times> string option" where
  "verifyIgnoreURLs X [] h = (h, None)"
| "verifyIgnoreURLs X (location # rest) h =
     (case RegexpCompile X location of
        Inl e \<Rightarrow> (h, Some (''failed to compile ignoreURL '' @ location @ '': '' @ e))
      | Inr r \<Rightarrow> verifyIgnoreURLs X rest (h\<lparr>ignoreRegexps := ignoreRegexps h @ [r]\<rparr>))"

definition verifyConfig ::
  "('a, 'p, 'r) externals \<Rightarrow> Config \<Rightarrow> ('p, 'r) UmamiFeeder \<Rightarrow>
     ('p, 'r) UmamiFeeder \<times> string option" where
  "verifyConfig X config h =
     (case verifyIgnoreIPs X (IgnoreIPs config) h of
        (h', Some e) \<Rightarrow> (h', Some e)
      | (h', None) \<Rightarrow> verifyIgnoreURLs X (IgnoreURLs config) h')"

text \<open>
  \<^verbatim>\<open>retryConnection\<close>. Each iteration blocks in a \<^verbatim>\<open>select\<close> on the delay
  and on cancellation; which of the two fires is decided outside the program, so
  the loop runs over a schedule that lists the outcome of each \<^verbatim>\<open>select\<close>. The
  loop has no bound of its own: when the schedule is used up it is still
  retrying (\<open>Retrying\<close>). \<open>Ready\<close> is the exit that clears the disabled flag and
  launches \<^verbatim>\<open>startWorker\<close>; \<open>Fatal\<close> is the exit on a \<^verbatim>\<open>verifyConfig\<close> error;
  \<open>Crashed\<close> is a fault in the probe, which nothing recovers.
\<close>

datatype retry_select = AfterDelay | RetryCtxDone

datatype retry_exit = Ready | Fatal | Cancelled | Retrying | Crashed string

fun retryConnection ::
  "('a, 'p, 'r) externals \<Rightarrow> Config \<Rightarrow> retry_select list \<Rightarrow> nat \<Rightarrow> ('p, 'r) UmamiFeeder \<Rightarrow>
     ('p, 'r) UmamiFeeder \<times> retry_exit \<times> nat" where
  "retryConnection X config [] retryAttempt h = (h, Retrying, retryAttempt)"
| "retryConnection X config (sel # schedule) retryAttempt h =
     (let h1 = (if retryAttempt > 0
                then debug h ''Next connection attempt in %v (attempt #%d).''
                       [ADur (currentDelay retryAttempt), AInt (int retryAttempt + 1)]
                else h)
      in case sel of
           RetryCtxDone \<Rightarrow>
             (debug h1 ''Context cancelled during retryConnection, stopping connection retries.'' [],
              Cancelled, retryAttempt)
         | AfterDelay \<Rightarrow>
             (let h2 = h1\<lparr>slept := slept h1 @ [currentDelay retryAttempt]\<rparr>;
                  h3 = debug h2 ''Attempting to connect to Rybbit (attempt #%d)...''
                         [AInt (int (retryAttempt + 1))]
              in case connect X h3 of
                   (h4, Ok _) \<Rightarrow>
                     (let h5 = debug h4 ''Successfully connected to Rybbit. Verifying configuration...'' []
                      in case verifyConfig X config h5 of
                           (h6, None) \<Rightarrow>
                             ((debug h6 ''Configuration verified. Enabling plugin and starting worker.'' [])
                                \<lparr>isDisabled := False\<rparr>,
                              Ready, retryAttempt + 1)
                         | (h6, Some e) \<Rightarrow>
                             ((error h6 (''configuration error, the plugin is disabled: '' @ e))
                                \<lparr>isDisabled := True\<rparr>,
                              Fatal, retryAttempt + 1))
                 | (h4, Err e) \<Rightarrow>
                     retryConnection X config schedule (retryAttempt + 1)
                       (error h4 (''Failed to reconnect to Rybbit: '' @ e))
                 | (h4, Panic p) \<Rightarrow> (h4, Crashed p, retryAttempt + 1)))"

section \<open>The filter engine (umami.go)\<close>

text \<open>\<^verbatim>\<open>strings.Contains\<close>: the second string occurs in the first.\<close>

fun Contains :: "string \<Rightarrow> string \<Rightarrow> bool" where
  "Contains [] substr = (substr = [])"
| "Contains (c # s) substr = (take (length substr) (c # s) = substr \<or> Contains s substr)"

text \<open>
  \<^verbatim>\<open>path.Ext\<close>: the suffix that starts at the last dot of the last
  slash-separated element, empty when there is no dot. The scan runs from the
  last byte backwards; \<open>seen\<close> holds the bytes already passed.
\<close>

fun ExtScan :: "string \<Rightarrow> string \<Rightarrow> string" where
  "ExtScan [] seen = ''''"
| "ExtScan (c # front) seen =
     (if c = CHR ''/'' then ''''
      else if c = CHR ''.'' then c # seen
      else ExtScan front (c # seen))"

definition Ext :: "string \<Rightarrow> string" where
  "Ext p = ExtScan (rev p) []"

definition shouldTrackResource :: "('p, 'r) UmamiFeeder \<Rightarrow> string \<Rightarrow> bool" where
  "shouldTrackResource h url =
     (if trackAllResources h then True
      else
        let pathExt = Ext url
        in if length (trackExtensions h) > 0 then list_ex (\<lambda>suffix. suffix = pathExt) (trackExtensions h)
           else pathExt \<in> set ['''', ''.htm'', ''.html'', ''.xhtml'', ''.jsf'', ''.md'', ''.php'',
                               ''.rss'', ''.rtf'', ''.txt'', ''.xml'', ''.pdf''])"

definition shouldTrackStatus ::
  "('p, 'r) UmamiFeeder \<Rightarrow> int \<Rightarrow> ('p, 'r) UmamiFeeder \<times> bool" where
  "shouldTrackStatus h statusCode =
     (if statusCode \<ge> 400 then
        (if trackErrors h then (h, True)
         else (debug h ''not reporting %d error'' [AInt statusCode], False))
      else (h, True))"

text \<open>
  The first block of \<^verbatim>\<open>shouldTrack\<close>, entered when \<open>ignorePrefixes\<close> is not
  empty. \<open>requestIp\<close> is the value the block resolves: the configured header,
  or \<^verbatim>\<open>req.RemoteAddr\<close> when that header is empty. The block either ends
  \<^verbatim>\<open>shouldTrack\<close> with \<^verbatim>\<open>false\<close> (\<open>Exclude\<close>) or falls through (\<open>Pass\<close>).
\<close>

datatype verdict = Exclude | Pass

definition requestIp :: "('p, 'r) UmamiFeeder \<Rightarrow> Request \<Rightarrow> string" where
  "requestIp h req =
     (if HeaderGet req (headerIp h) = '''' then RemoteAddr req else HeaderGet req (headerIp h))"

definition ipStep ::
  "('a, 'p, 'r) externals \<Rightarrow> ('p, 'r) UmamiFeeder \<Rightarrow> Request \<Rightarrow>
     ('p, 'r) UmamiFeeder \<times> verdict" where
  "ipStep X h req =
     (if length (ignorePrefixes h) > 0 then
        (case ParseAddr X (requestIp h req) of
           None \<Rightarrow> (debug h ''invalid IP %s'' [AStr (requestIp h req)], Exclude)
         | Some ip \<Rightarrow>
             if list_ex (\<lambda>prefix. PrefixContains X prefix ip) (ignorePrefixes h)
             then (debug h ''ignoring IP %s'' [AStr (AddrString X ip)], Exclude)
             else (h, Pass))
      else (h, Pass))"

definition shouldTrack ::
  "('a, 'p, 'r) externals \<Rightarrow> ('p, 'r) UmamiFeeder \<Rightarrow> Request \<Rightarrow>
     ('p, 'r) UmamiFeeder \<times> bool" where
  "shouldTrack X h req =
     (case ipStep X h req of
        (h', Exclude) \<Rightarrow> (h', False)
      | (_, Pass) \<Rightarrow>
          if length (ignoreUserAgents h) > 0
             \<and> list_ex (\<lambda>disabledUserAgent. Contains (UserAgent req) disabledUserAgent)
                  (ignoreUserAgents h)
          then (debug h ''ignoring user-agent %s'' [AStr (UserAgent req)], False)
          else if length (ignoreRegexps h) > 0
                  \<and> list_ex (\<lambda>r. MatchString X r (URLString req)) (ignoreRegexps h)
          then (debug h ''ignoring location %s'' [AStr (URLString req)], False)
          else if \<not> shouldTrackResource h (URLPath req)
          then (debug h ''ignoring resource %s'' [AStr (URLPath req)], False)
          else if createNewWebsites h then (h, True)
          else
            (case map_of (websites h) (parseDomainFromHost X (ReqHost req)) of
               Some _ \<Rightarrow> (h, True)
             | None \<Rightarrow>
                 (debug h ''ignoring domain %s'' [AStr (parseDomainFromHost X (ReqHost req))],
                  False)))"

section \<open>Enqueueing and the response writer (umami_worker.go, the response writer file)\<close>

text \<open>
  \<^verbatim>\<open>submitToFeed\<close>. The send of the \<^verbatim>\<open>select\<close> with a \<^verbatim>\<open>default\<close> branch
  proceeds when the worker is blocked in its receive, to which the event is
  then passed directly, or else when the buffer has room; otherwise the
  \<^verbatim>\<open>default\<close> branch is taken. With capacity 0 the channel has no buffer and
  only the first way is open.
\<close>

definition mkEvent ::
  "('a, 'p, 'r) externals \<Rightarrow> ('p, 'r) UmamiFeeder \<Rightarrow> Request \<Rightarrow> string \<Rightarrow> string \<Rightarrow> RybbitEvent" where
  "mkEvent X h req hostname websiteId =
     \<lparr>evAPIKey = apiKey h, evSiteID = websiteId, evType = ''pageview'',
      evPathname = URLPath req, evHostname = hostname, evIP = extractRemoteIP X req,
      evUserAgent = HeaderGet req ''User-Agent'',
      evLanguage = parseAcceptLanguage X (HeaderGet req ''Accept-Language''),
      evEventName = '''', evReferrer = Referer req, evProperties = ''''\<rparr>"

definition submitToFeed ::
  "('a, 'p, 'r) externals \<Rightarrow> ('p, 'r) UmamiFeeder \<Rightarrow> Request \<Rightarrow> int \<Rightarrow> ('p, 'r) UmamiFeeder" where
  "submitToFeed X h req code =
     (let hostname = parseDomainFromHost X (ReqHost req)
      in case map_of (websites h) hostname of
           None \<Rightarrow> error h (''tracking skipped, site-id is unknown: '' @ hostname)
         | Some websiteId \<Rightarrow>
             if receiver h = Blocked
             then h\<lparr>receiver := Handed (mkEvent X h req hostname websiteId)\<rparr>
             else if length (queue h) < queueCap h
             then h\<lparr>queue := queue h @ [mkEvent X h req hostname websiteId]\<rparr>
             else error h ''failed to submit event: queue full'')"

text \<open>
  \<^verbatim>\<open>type ResponseWriter struct\<close>: the wrapped writer is represented by the
  status codes passed on to its \<^verbatim>\<open>WriteHeader\<close>, the feeder it points to is
  the shared state \<open>h\<close>.
\<close>

record ResponseWriter =
  request :: Request
  forwarded :: "int list"

definition WriteHeader ::
  "('a, 'p, 'r) externals \<Rightarrow> int \<Rightarrow> ('p, 'r) UmamiFeeder \<times> ResponseWriter \<Rightarrow>
     ('p, 'r) UmamiFeeder \<times> ResponseWriter" where
  "WriteHeader X code s =
     (case s of (h, rw) \<Rightarrow>
        (case shouldTrackStatus h code of
           (h', True) \<Rightarrow> (submitToFeed X h' (request rw) code, rw\<lparr>forwarded := forwarded rw @ [code]\<rparr>)
         | (h', False) \<Rightarrow> (h', rw\<lparr>forwarded := forwarded rw @ [code]\<rparr>)))"

text \<open>
  \<^verbatim>\<open>ServeHTTP\<close>. The next handler is outside the plugin; what matters of it
  is the sequence of \<^verbatim>\<open>WriteHeader\<close> calls it makes on the writer it is given,
  \<open>nxt req\<close>. The result holds the feeder afterwards and the status codes that
  reached the proxy's own writer.
\<close>

definition ServeHTTP ::
  "('a, 'p, 'r) externals \<Rightarrow> (Request \<Rightarrow> int list) \<Rightarrow> ('p, 'r) UmamiFeeder \<Rightarrow> Request \<Rightarrow>
     ('p, 'r) UmamiFeeder \<times> int list" where
  "ServeHTTP X nxt h req =
     (if isDisabled h then (h, nxt req)
      else
        case shouldTrack X h req of
          (h', True) \<Rightarrow>
            (case fold (WriteHeader X) (nxt req) (h', \<lparr>request = req, forwarded = []\<rparr>) of
               (h'', rw) \<Rightarrow> (h'', forwarded rw))
        | (h', False) \<Rightarrow> (h', nxt req))"

section \<open>The batching worker (umami_worker.go)\<close>

text \<open>
  \<^verbatim>\<open>reportEventsToUmami\<close>: one \<^verbatim>\<open>sendRequest\<close> per element, in order, with
  \<^verbatim>\<open>value.Payload\<close> as body; an error ends the function. The second
  component is the value of a panic raised by a call, if any.
\<close>

fun reportEvents ::
  "('a, 'p, 'r) externals \<Rightarrow> ('p, 'r) UmamiFeeder \<Rightarrow> SendBody list \<Rightarrow>
     ('p, 'r) UmamiFeeder \<times> string option" where
  "reportEvents X h [] = (h, None)"
| "reportEvents X h (val # events) =
     (case sendRequest X h (host h @ ''/api/track'') (Some (JEvent (Payload val))) of
        (h', Err e) \<Rightarrow> (error h' (''failed to send tracking: '' @ e), None)
      | (h', Panic p) \<Rightarrow> (h', Some p)
      | (h', Ok resp) \<Rightarrow>
          reportEvents X
            (if isDebug h' then debug h' ''%v: %s'' [AStr (Status resp), AStr (Body resp)] else h')
            events)"

definition reportEventsToUmami ::
  "('a, 'p, 'r) externals \<Rightarrow> ('p, 'r) UmamiFeeder \<Rightarrow> SendBody list \<Rightarrow>
     ('p, 'r) UmamiFeeder \<times> string option" where
  "reportEventsToUmami X h events =
     reportEvents X (debug h ''reporting %d events'' [AInt (int (length events))]) events"

text \<open>
  The local state of \<^verbatim>\<open>umamiEventFeeder\<close>: the batch, the duration the timer
  was last armed with, and the number of \<^verbatim>\<open>timeout.Reset\<close> calls so far.
\<close>

record worker =
  batch :: "SendBody list"
  timer :: Duration
  timerResets :: nat

text \<open>
  One iteration of the \<^verbatim>\<open>for\<close> loop of \<^verbatim>\<open>umamiEventFeeder\<close>. The
  \<^verbatim>\<open>select\<close> has three cases; which one is taken is decided outside the
  program. \<open>QueueRecv\<close> receives the oldest buffered event; on an empty queue
  that case is not ready and the iteration leaves everything as it is. The
  iteration either goes on (\<open>Continue\<close>), executes \<^verbatim>\<open>return nil\<close>
  (\<open>ReturnNil\<close>), or is left by a panic (\<open>Fault\<close>).
\<close>

datatype worker_select = CtxDone | QueueRecv | TimeoutFired

datatype step_exit = Continue | ReturnNil | Fault string

definition flushThen ::
  "('a, 'p, 'r) externals \<Rightarrow> ('p, 'r) UmamiFeeder \<Rightarrow> worker \<Rightarrow> (worker \<Rightarrow> worker) \<Rightarrow> step_exit \<Rightarrow>
     ('p, 'r) UmamiFeeder \<times> worker \<times> step_exit" where
  "flushThen X h w after ex =
     (case reportEventsToUmami X h (batch w) of
        (h', None) \<Rightarrow> (h', after w, ex)
      | (h', Some p) \<Rightarrow> (h', w, Fault p))"

definition resetTimer :: "('p, 'r) UmamiFeeder \<Rightarrow> worker \<Rightarrow> worker" where
  "resetTimer h w = w\<lparr>timer := batchMaxWait h, timerResets := Suc (timerResets w)\<rparr>"

fun workerStep ::
  "('a, 'p, 'r) externals \<Rightarrow> worker_select \<Rightarrow> ('p, 'r) UmamiFeeder \<Rightarrow> worker \<Rightarrow>
     ('p, 'r) UmamiFeeder \<times> worker \<times> step_exit" where
  "workerStep X CtxDone h w =
     (let h1 = debug h ''worker shutting down (canceled)'' []
      in if length (batch w) > 0 then flushThen X h1 w (\<lambda>w. w) ReturnNil
         else (h1, w, ReturnNil))"
| "workerStep X QueueRecv h w =
     (case queue h of
        [] \<Rightarrow> (h, w, Continue)
      | event # pending \<Rightarrow>
          (let h1 = h\<lparr>queue := pending\<rparr>;
               w1 = w\<lparr>batch := batch w @ [\<lparr>Payload = event, sbType = ''event''\<rparr>]\<rparr>
           in if int (length (batch w1)) \<ge> batchSize h1
              then flushThen X h1 w1 (\<lambda>w. resetTimer h1 (w\<lparr>batch := []\<rparr>)) Continue
              else (h1, w1, Continue)))"
| "workerStep X TimeoutFired h w =
     (if length (batch w) > 0
      then flushThen X h w (\<lambda>w. resetTimer h (w\<lparr>batch := []\<rparr>)) Continue
      else (h, resetTimer h w, Continue))"

text \<open>
  The worker at its \<^verbatim>\<open>select\<close>. When it leaves the \<^verbatim>\<open>select\<close> it is no
  longer a blocked receiver (\<open>wake\<close>); an event it was handed while blocked is
  what its receive yields, ahead of the buffer, so for the iteration that
  receives it the event stands in front of the buffer, and the case taken by
  that \<^verbatim>\<open>select\<close> is the receive whatever else has become ready (\<open>taken\<close>). A
  worker that comes to its \<^verbatim>\<open>select\<close> with nothing to receive blocks there
  (\<open>park\<close>).
\<close>

definition wake :: "('p, 'r) UmamiFeeder \<Rightarrow> ('p, 'r) UmamiFeeder" where
  "wake h =
     (case receiver h of
        Handed event \<Rightarrow> h\<lparr>queue := event # queue h, receiver := Absent\<rparr>
      | _ \<Rightarrow> h\<lparr>receiver := Absent\<rparr>)"

definition taken :: "('p, 'r) UmamiFeeder \<Rightarrow> worker_select \<Rightarrow> worker_select" where
  "taken h sel = (case receiver h of Handed _ \<Rightarrow> QueueRecv | _ \<Rightarrow> sel)"

definition park :: "('p, 'r) UmamiFeeder \<Rightarrow> ('p, 'r) UmamiFeeder" where
  "park h = (if receiver h = Absent \<and> queue h = [] then h\<lparr>receiver := Blocked\<rparr> else h)"

text \<open>
  The loop over a schedule of \<^verbatim>\<open>select\<close> outcomes. It has no bound of its own:
  when the schedule is used up the worker is still waiting in its
  \<^verbatim>\<open>select\<close>, which the exit \<open>Continue\<close> stands for. The last component is the
  part of the schedule not yet consumed.
\<close>

fun feederLoop ::
  "('a, 'p, 'r) externals \<Rightarrow> worker_select list \<Rightarrow> ('p, 'r) UmamiFeeder \<Rightarrow> worker \<Rightarrow>
     ('p, 'r) UmamiFeeder \<times> worker \<times> step_exit \<times> worker_select list" where
  "feederLoop X [] h w = (park h, w, Continue, [])"
| "feederLoop X (sel # schedule) h w =
     (case workerStep X (taken h sel) (wake h) w of
        (h', w', Continue) \<Rightarrow> feederLoop X schedule h' w'
      | (h', w', ReturnNil) \<Rightarrow> (h', w', ReturnNil, schedule)
      | (h', w', Fault p) \<Rightarrow> (h', w', Fault p, schedule))"

text \<open>
  \<^verbatim>\<open>umamiEventFeeder\<close> with its deferred function. The named result \<^verbatim>\<open>err\<close>
  is assigned nowhere: \<^verbatim>\<open>return nil\<close> sets it to \<^verbatim>\<open>nil\<close>, and after a
  panic the deferred function recovers, logs, and the function returns its
  result as it stands, the zero value \<^verbatim>\<open>nil\<close>. \<open>Returned err\<close> carries that
  result (\<open>None\<close> for \<^verbatim>\<open>nil\<close>); \<open>Waiting\<close> is a worker still in its loop.
  \<open>newWorker\<close> is what the function does before its loop: it makes the batch
  with \<^verbatim>\<open>make([]*SendBody, 0, h.batchSize)\<close>, which may panic (\<open>Inl\<close>), and arms
  the timer with \<^verbatim>\<open>h.batchMaxWait\<close>. That panic is recovered like any other,
  before any \<^verbatim>\<open>select\<close>. The loop body makes a new batch in the same way after
  a flush; it is reached only after the first \<^verbatim>\<open>make\<close> has succeeded with the
  same \<^verbatim>\<open>h.batchSize\<close>.
\<close>

datatype feeder_return = Waiting | Returned "string option"

definition newWorker :: "('a, 'p, 'r) externals \<Rightarrow> ('p, 'r) UmamiFeeder \<Rightarrow> string + worker" where
  "newWorker X h =
     (case makeSlice X (batchSize h) of
        Some p \<Rightarrow> Inl p
      | None \<Rightarrow> Inr \<lparr>batch = [], timer = batchMaxWait h, timerResets = 0\<rparr>)"

definition umamiEventFeeder ::
  "('a, 'p, 'r) externals \<Rightarrow> worker_select list \<Rightarrow> ('p, 'r) UmamiFeeder \<Rightarrow>
     ('p, 'r) UmamiFeeder \<times> feeder_return \<times> worker_select list" where
  "umamiEventFeeder X schedule h =
     (case newWorker X h of
        Inl p \<Rightarrow> (error h (''panic: '' @ p), Returned None, schedule)
      | Inr w0 \<Rightarrow>
          (case feederLoop X schedule h w0 of
             (h', w, Continue, rest) \<Rightarrow> (h', Waiting, rest)
           | (h', w, ReturnNil, rest) \<Rightarrow> (h', Returned None, rest)
           | (h', w, Fault p, rest) \<Rightarrow> (error h' (''panic: '' @ p), Returned None, rest)))"

text \<open>
  \<^verbatim>\<open>startWorker\<close>: calls \<^verbatim>\<open>umamiEventFeeder\<close> again as long as it returns an
  error, and returns when it returns \<^verbatim>\<open>nil\<close>. \<open>starts\<close> counts the calls of
  \<^verbatim>\<open>umamiEventFeeder\<close>. The recursion is well defined because
  \<^verbatim>\<open>umamiEventFeeder\<close> has no path on which it returns an error.
\<close>

datatype worker_status = WorkerWaiting | WorkerReturned

lemma umamiEventFeeder_never_fails:
  "fst (snd (umamiEventFeeder X schedule h)) \<noteq> Returned (Some e)"
  by (simp add: umamiEventFeeder_def split: sum.splits prod.splits step_exit.splits)

lemma umamiEventFeeder_returns_nil:
  "(h', Returned (Some e), rest) = umamiEventFeeder X schedule h \<Longrightarrow> False"
  using umamiEventFeeder_never_fails [of X schedule h e]
  by (cases "umamiEventFeeder X schedule h") auto

function startWorker ::
  "('a, 'p, 'r) externals \<Rightarrow> worker_select list \<Rightarrow> ('p, 'r) UmamiFeeder \<Rightarrow> nat \<Rightarrow>
     ('p, 'r) UmamiFeeder \<times> worker_status \<times> nat" where
  "startWorker X schedule h starts =
     (case umamiEventFeeder X schedule h of
        (h', Waiting, rest) \<Rightarrow> (h', WorkerWaiting, Suc starts)
      | (h', Returned (Some err), rest) \<Rightarrow>
          startWorker X rest (error h' (''worker failed: '' @ err)) (Suc starts)
      | (h', Returned None, rest) \<Rightarrow> (h', WorkerReturned, Suc starts))"
  by pat_completeness auto
termination
  by (relation "measure (\<lambda>(X, schedule, h, starts). length schedule)")
     (auto dest: umamiEventFeeder_returns_nil)

section \<open>A concrete environment for running the model\<close>

text \<open>
  The theorems below hold for every choice of the external functions. To run
  the model on examples, this section fixes one choice: IPv4 addresses in
  dotted-decimal form as numbers from 0 to \<open>2^32 - 1\<close>, a prefix as a base address with
  a number of leading bits, a pattern that matches where it occurs literally,
  a host name cut at its port, a network given by a list of answers, and the
  limits of \<^verbatim>\<open>make\<close> on one platform.
\<close>

definition decOctet :: "string \<Rightarrow> int option" where
  "decOctet s =
     (if s = [] \<or> length s > 3 \<or> \<not> list_all (\<lambda>c. 48 \<le> (of_char c :: nat) \<and> (of_char c :: nat) \<le> 57) s
         \<or> (length s > 1 \<and> hd s = CHR ''0'')
      then None
      else let n = foldl (\<lambda>acc c. 10 * acc + (int (of_char c) - 48)) 0 s
           in if n \<le> 255 then Some n else None)"

fun splitOn :: "char \<Rightarrow> string \<Rightarrow> string \<Rightarrow> string list" where
  "splitOn sep [] cur = [rev cur]"
| "splitOn sep (c # s) cur =
     (if c = sep then rev cur # splitOn sep s [] else splitOn sep s (c # cur))"

definition ipv4ParseAddr :: "string \<Rightarrow> int option" where
  "ipv4ParseAddr s =
     (case map decOctet (splitOn (CHR ''.'') s []) of
        [Some a, Some b, Some c, Some d] \<Rightarrow> Some (((a * 256 + b) * 256 + c) * 256 + d)
      | _ \<Rightarrow> None)"

definition ipv4ParsePrefix :: "string \<Rightarrow> string + (int \<times> nat)" where
  "ipv4ParsePrefix s =
     (case splitOn (CHR ''/'') s [] of
        [addr, bits] \<Rightarrow>
          (case (ipv4ParseAddr addr, decOctet bits) of
             (Some a, Some b) \<Rightarrow> if b \<le> 32 then Inr (a, nat b) else Inl ''prefix length out of range''
           | _ \<Rightarrow> Inl ''unable to parse IP'')
      | _ \<Rightarrow> Inl ''no slash'')"

definition ipv4Contains :: "int \<times> nat \<Rightarrow> int \<Rightarrow> bool" where
  "ipv4Contains p ip = (case p of (base, bits) \<Rightarrow> ip div 2 ^ (32 - bits) = base div 2 ^ (32 - bits))"

text \<open>
  \<^verbatim>\<open>make\<close> as the Go runtime performs it on linux/amd64, where an allocation may
  take up to \<open>2^48\<close> bytes, a pointer takes 8 and the header of a channel 96.
\<close>

definition goMakeChan :: "int \<Rightarrow> string option" where
  "goMakeChan n =
     (if n < 0 \<or> 35184372088820 < n then Some ''makechan: size out of range'' else None)"

definition goMakeSlice :: "int \<Rightarrow> string option" where
  "goMakeSlice n =
     (if n < 0 \<or> 35184372088832 < n then Some ''runtime error: makeslice: cap out of range''
      else None)"

definition testEnv :: "http_response result list \<Rightarrow> (int, int \<times> nat, string) externals" where
  "testEnv answers =
     \<lparr>ParseAddr = ipv4ParseAddr,
      AddrString = (\<lambda>_. ''<addr>''),
      ParsePrefix = ipv4ParsePrefix,
      PrefixIsValid = (\<lambda>_. True),
      PrefixContains = ipv4Contains,
      RegexpCompile = Inr,
      MatchString = (\<lambda>r s. Contains s r),
      parseDomainFromHost = takeWhile (\<lambda>c. c \<noteq> CHR '':''),
      extractRemoteIP = RemoteAddr,
      parseAcceptLanguage = (\<lambda>s. s),
      network = (\<lambda>n r. if n < length answers then answers ! n else Err ''connection refused''),
      makeChan = goMakeChan, makeSlice = goMakeSlice\<rparr>"

definition ok200 :: "http_response result" where
  "ok200 = Ok \<lparr>Status = ''200 OK'', Body = ''{}''\<rparr>"

definition testConfig :: Config where
  "testConfig =
     CreateConfig\<lparr>Host := ''http://rybbit.test'', APIKey := ''rb_key'',
                  Websites := [(''example.com'', ''1'')], QueueSize := 2, BatchSize := 2\<rparr>"

text \<open>The feeder \<^verbatim>\<open>New\<close> builds from \<open>testConfig\<close>, after a successful start.\<close>

definition testFeeder :: "(int \<times> nat, string) UmamiFeeder" where
  "testFeeder =
     \<lparr>name = ''rybbit'', isDebug = False, isDisabled = False,
      queue = [], queueCap = 2, receiver = Absent, batchSize = 2, batchMaxWait = Second,
      host = ''http://rybbit.test'', apiKey = ''rb_key'', websites = [(''example.com'', ''1'')],
      createNewWebsites = False, trackErrors = False, trackAllResources = False,
      trackExtensions = [], ignoreUserAgents = [], ignoreRegexps = [], ignorePrefixes = [],
      headerIp = ''X-Real-Ip'', logged = [], wire = [], slept = []\<rparr>"

definition testRequest :: Request where
  "testRequest =
     \<lparr>ReqHost = ''example.com:443'', RemoteAddr = ''203.0.113.9:4711'',
      URLPath = ''/pricing'', URLString = ''/pricing?ref=mail'',
      HeaderGet = (\<lambda>k. if k = ''User-Agent'' then ''Mozilla/5.0''
                        else if k = ''X-Real-Ip'' then ''10.1.2.3''
                        else '''')\<rparr>"

definition testEvent :: "string \<Rightarrow> RybbitEvent" where
  "testEvent p =
     \<lparr>evAPIKey = ''rb_key'', evSiteID = ''1'', evType = ''pageview'', evPathname = p,
      evHostname = ''example.com'', evIP = ''203.0.113.9:4711'', evUserAgent = ''Mozilla/5.0'',
      evLanguage = '''', evEventName = '''', evReferrer = '''', evProperties = ''''\<rparr>"

definition testBody :: "string \<Rightarrow> SendBody" where
  "testBody p = \<lparr>Payload = testEvent p, sbType = ''event''\<rparr>"

definition testWorker :: "SendBody list \<Rightarrow> worker" where
  "testWorker b = \<lparr>batch = b, timer = Second, timerResets = 0\<rparr>"

section \<open>Reading the state\<close>

text \<open>
  The events sent on the channel and not yet received by the loop of the
  worker: those in the buffer, and the one handed to the blocked worker.
\<close>

definition inFlight :: "('p, 'r) UmamiFeeder \<Rightarrow> nat" where
  "inFlight h = length (queue h) + (case receiver h of Handed _ \<Rightarrow> 1 | _ \<Rightarrow> 0)"


text \<open>The messages of the error lines of a log, in order.\<close>

fun errorLines :: "log_entry list \<Rightarrow> string list" where
  "errorLines [] = []"
| "errorLines (ERR m # ls) = m # errorLines ls"
| "errorLines (DBG f v # ls) = errorLines ls"

section \<open>Properties\<close>

subsection \<open>What the diagnostics leave untouched\<close>

lemma error_keeps:
  "queue (error h m) = queue h" "queueCap (error h m) = queueCap h"
  "websites (error h m) = websites h" "wire (error h m) = wire h"
  "host (error h m) = host h" "apiKey (error h m) = apiKey h"
  "isDebug (error h m) = isDebug h" "trackErrors (error h m) = trackErrors h"
  "batchSize (error h m) = batchSize h" "batchMaxWait (error h m) = batchMaxWait h"
  "slept (error h m) = slept h" "isDisabled (error h m) = isDisabled h"
  "receiver (error h m) = receiver h"
  "logged (error h m) = logged h @ [ERR m]"
  by (simp_all add: error_def)

lemma debug_keeps:
  "queue (debug h f v) = queue h" "queueCap (debug h f v) = queueCap h"
  "websites (debug h f v) = websites h" "wire (debug h f v) = wire h"
  "host (debug h f v) = host h" "apiKey (debug h f v) = apiKey h"
  "isDebug (debug h f v) = isDebug h" "trackErrors (debug h f v) = trackErrors h"
  "batchSize (debug h f v) = batchSize h" "batchMaxWait (debug h f v) = batchMaxWait h"
  "slept (debug h f v) = slept h" "isDisabled (debug h f v) = isDisabled h"
  "receiver (debug h f v) = receiver h"
  by (simp_all add: debug_def)

lemma debug_quiet: "\<not> isDebug h \<Longrightarrow> debug h f v = h"
  by (simp add: debug_def)

lemmas fixture_defs =
  testFeeder_def testEnv_def testRequest_def testEvent_def testConfig_def ok200_def
  testBody_def testWorker_def CreateConfig_def goMakeChan_def goMakeSlice_def

lemmas enqueue_defs =
  submitToFeed_def mkEvent_def Referer_def UserAgent_def Let_def error_def debug_def

subsection \<open>Retry delays\<close>

text \<open>
  C8. The delay before the first attempt is zero; after \<open>n\<close> attempts with
  \<open>1 \<le> n < 8\<close> it is \<open>15 s * 2^n\<close>; from eight attempts on it is one hour. For
  0 to 9 attempts made the delays are 0, 30, 60, 120, 240, 480, 960, 1920, 3600
  and 3600 seconds.
\<close>

theorem currentDelay_sequence:
  "currentDelay 0 = 0
   \<and> (\<forall>n. 1 \<le> n \<and> n < 8 \<longrightarrow> currentDelay n = 15 * Second * 2 ^ n)
   \<and> (\<forall>n. 8 \<le> n \<longrightarrow> currentDelay n = Hour)
   \<and> map currentDelay [0, 1, 2, 3, 4, 5, 6, 7, 8, 9]
       = map (\<lambda>s. s * Second) [0, 30, 60, 120, 240, 480, 960, 1920, 3600, 3600]"
  by (simp add: currentDelay_def maxRetryInterval_def Hour_def)

theorem currentDelay_sequence_witness:
  "(1::nat) \<le> 3 \<and> (3::nat) < 8 \<and> currentDelay 3 = 120 * Second
   \<and> (8::nat) \<le> 11 \<and> currentDelay 11 = 3600 * Second"
  using currentDelay_sequence by (simp add: Hour_def)

subsection \<open>Construction\<close>

lemma New_fields:
  "New X config nm = Inr (h, launched) \<Longrightarrow>
     batchMaxWait h = 1 * Second \<and> batchSize h = BatchSize config
     \<and> queue h = [] \<and> queueCap h = nat (QueueSize config) \<and> receiver h = Absent"
  by (auto simp: New_def Let_def debug_def split: if_splits option.splits)

lemma New_makeChan_panic:
  "makeChan X (QueueSize config) = Some p \<Longrightarrow> New X config nm = Inl p"
  by (simp add: New_def)

text \<open>
  C3. The claim is that the worker's wait timer is the configured
  \<open>BatchMaxWait\<close>. \<^verbatim>\<open>New\<close> stores one second whatever the configuration says,
  while it takes the batch size from the configuration; the worker arms its
  timer with that second, at its start and at every reset.
\<close>

theorem New_batchMaxWait_fixed:
  "New X config nm = Inr (h, launched) \<Longrightarrow>
     batchMaxWait h = 1 * Second \<and> batchSize h = BatchSize config
     \<and> (\<forall>w0. newWorker X h = Inr w0 \<longrightarrow> timer w0 = 1 * Second)
     \<and> timer (resetTimer h w) = 1 * Second"
  using New_fields [of X config nm h launched]
  by (auto simp: newWorker_def resetTimer_def split: option.splits)

theorem New_batchMaxWait_fixed_witness:
  "(\<exists>h launched w0. New (testEnv []) CreateConfig ''rybbit'' = Inr (h, launched)
      \<and> newWorker (testEnv []) h = Inr w0
      \<and> timer w0 = 1 * Second \<and> BatchMaxWait CreateConfig = 5 * Second
      \<and> timer w0 \<noteq> BatchMaxWait CreateConfig)"
proof -
  obtain h launched
    where new: "New (testEnv []) CreateConfig ''rybbit'' = Inr (h, launched)"
    by (simp add: New_def fixture_defs Let_def)
  from New_fields [OF new] obtain w0 where worker: "newWorker (testEnv []) h = Inr w0"
    by (simp add: newWorker_def fixture_defs)
  from New_batchMaxWait_fixed [OF new, where w = "testWorker []"] new worker show ?thesis
    by (simp add: CreateConfig_def Second_def)
qed

subsection \<open>Enqueueing\<close>

lemma submitToFeed_known:
  "map_of (websites h) (parseDomainFromHost X (ReqHost req)) = Some sid \<Longrightarrow>
   submitToFeed X h req code
     = (if receiver h = Blocked
        then h\<lparr>receiver := Handed (mkEvent X h req (parseDomainFromHost X (ReqHost req)) sid)\<rparr>
        else if length (queue h) < queueCap h
        then h\<lparr>queue := queue h @ [mkEvent X h req (parseDomainFromHost X (ReqHost req)) sid]\<rparr>
        else error h ''failed to submit event: queue full'')"
  by (simp add: submitToFeed_def Let_def)

lemma submitToFeed_unknown:
  "map_of (websites h) (parseDomainFromHost X (ReqHost req)) = None \<Longrightarrow>
   submitToFeed X h req code
     = error h (''tracking skipped, site-id is unknown: '' @ parseDomainFromHost X (ReqHost req))"
  by (simp add: submitToFeed_def Let_def)

lemma submitToFeed_within:
  "length (queue h) \<le> queueCap h \<Longrightarrow>
   length (queue (submitToFeed X h req code)) \<le> queueCap (submitToFeed X h req code)"
  by (cases "map_of (websites h) (parseDomainFromHost X (ReqHost req))")
     (simp_all add: submitToFeed_known submitToFeed_unknown error_keeps)

text \<open>
  C7. \<^verbatim>\<open>submitToFeed\<close> is a single attempt that always returns. It keeps the
  buffer of the queue within its capacity. When the send cannot proceed, which
  is when the buffer is at its capacity and the worker is not blocked in its
  receive, the event is dropped: buffer and receiver stay as they are and one
  error line is written (the queue-full message when the site is known). When
  the send can proceed, the event of a known site is handed to the blocked
  worker or else appended to the buffer, and nothing is logged.
\<close>

theorem submitToFeed_bounded:
  "length (queue h) \<le> queueCap h \<Longrightarrow>
     length (queue (submitToFeed X h req code)) \<le> queueCap (submitToFeed X h req code)
     \<and> queueCap (submitToFeed X h req code) = queueCap h
     \<and> (receiver h \<noteq> Blocked \<and> length (queue h) = queueCap h \<longrightarrow>
          queue (submitToFeed X h req code) = queue h
          \<and> receiver (submitToFeed X h req code) = receiver h
          \<and> logged (submitToFeed X h req code)
              = logged h @
                [ERR (case map_of (websites h) (parseDomainFromHost X (ReqHost req)) of
                        None \<Rightarrow> ''tracking skipped, site-id is unknown: ''
                                 @ parseDomainFromHost X (ReqHost req)
                      | Some _ \<Rightarrow> ''failed to submit event: queue full'')])
     \<and> (receiver h = Blocked
          \<and> map_of (websites h) (parseDomainFromHost X (ReqHost req)) = Some sid \<longrightarrow>
          queue (submitToFeed X h req code) = queue h
          \<and> receiver (submitToFeed X h req code)
              = Handed (mkEvent X h req (parseDomainFromHost X (ReqHost req)) sid)
          \<and> logged (submitToFeed X h req code) = logged h)
     \<and> (receiver h \<noteq> Blocked \<and> length (queue h) < queueCap h
          \<and> map_of (websites h) (parseDomainFromHost X (ReqHost req)) = Some sid \<longrightarrow>
          queue (submitToFeed X h req code)
            = queue h @ [mkEvent X h req (parseDomainFromHost X (ReqHost req)) sid]
          \<and> receiver (submitToFeed X h req code) = receiver h
          \<and> logged (submitToFeed X h req code) = logged h)"
proof -
  assume bound: "length (queue h) \<le> queueCap h"
  show ?thesis
  proof (cases "map_of (websites h) (parseDomainFromHost X (ReqHost req))")
    case None
    with bound show ?thesis
      by (simp add: submitToFeed_unknown error_keeps)
  next
    case (Some known)
    with bound show ?thesis
      by (simp add: submitToFeed_known error_keeps)
  qed
qed

theorem submitToFeed_bounded_witness:
  "length (queue (testFeeder\<lparr>queue := [testEvent ''/a'', testEvent ''/b'']\<rparr>))
     = queueCap (testFeeder\<lparr>queue := [testEvent ''/a'', testEvent ''/b'']\<rparr>)
   \<and> receiver (testFeeder\<lparr>queue := [testEvent ''/a'', testEvent ''/b'']\<rparr>) \<noteq> Blocked
   \<and> queue (submitToFeed (testEnv []) (testFeeder\<lparr>queue := [testEvent ''/a'', testEvent ''/b'']\<rparr>)
              testRequest 200)
       = [testEvent ''/a'', testEvent ''/b'']
   \<and> logged (submitToFeed (testEnv []) (testFeeder\<lparr>queue := [testEvent ''/a'', testEvent ''/b'']\<rparr>)
              testRequest 200)
       = [ERR ''failed to submit event: queue full'']
   \<and> receiver (testFeeder\<lparr>queueCap := 0, receiver := Blocked\<rparr>) = Blocked
   \<and> map_of (websites (testFeeder\<lparr>queueCap := 0, receiver := Blocked\<rparr>))
        (parseDomainFromHost (testEnv []) (ReqHost testRequest)) = Some ''1''
   \<and> queue (submitToFeed (testEnv []) (testFeeder\<lparr>queueCap := 0, receiver := Blocked\<rparr>)
              testRequest 200) = []
   \<and> receiver (submitToFeed (testEnv []) (testFeeder\<lparr>queueCap := 0, receiver := Blocked\<rparr>)
                 testRequest 200) = Handed (testEvent ''/pricing'')
   \<and> logged (submitToFeed (testEnv []) (testFeeder\<lparr>queueCap := 0, receiver := Blocked\<rparr>)
               testRequest 200) = []
   \<and> logged (submitToFeed (testEnv []) (testFeeder\<lparr>queueCap := 0\<rparr>) testRequest 200)
       = [ERR ''failed to submit event: queue full'']
   \<and> length (queue testFeeder) < queueCap testFeeder
   \<and> queue (submitToFeed (testEnv []) testFeeder testRequest 200) = [testEvent ''/pricing'']"
  using submitToFeed_bounded
          [of "testFeeder\<lparr>queue := [testEvent ''/a'', testEvent ''/b'']\<rparr>" "testEnv []" testRequest 200
              "''1''"]
        submitToFeed_bounded
          [of "testFeeder\<lparr>queueCap := 0, receiver := Blocked\<rparr>" "testEnv []" testRequest 200 "''1''"]
        submitToFeed_bounded
          [of "testFeeder\<lparr>queueCap := 0\<rparr>" "testEnv []" testRequest 200 "''1''"]
        submitToFeed_bounded [of testFeeder "testEnv []" testRequest 200 "''1''"]
  by (simp add: fixture_defs mkEvent_def Referer_def)

text \<open>
  C10. The claim is that no event with an unknown or empty site identifier is
  enqueued. \<^verbatim>\<open>submitToFeed\<close> checks that the host name has an entry, not
  what the entry holds: with an entry that maps the host to the empty string,
  the event is enqueued with an empty site identifier.
\<close>

theorem submitToFeed_empty_site_id_counterexample:
  "map evSiteID
     (queue (submitToFeed (testEnv []) (testFeeder\<lparr>websites := [(''example.com'', '''')]\<rparr>)
               testRequest 200))
   = ['''']"
  by (simp add: fixture_defs enqueue_defs)

text \<open>
  C10 as amended. \<^verbatim>\<open>submitToFeed\<close> looks the host name up itself. Without
  an entry it logs an error and enqueues nothing; every event it enqueues, or
  hands to the blocked worker, carries the entry of its host name as site
  identifier, whatever that entry is.
\<close>

theorem submitToFeed_site_id:
  "(map_of (websites h) (parseDomainFromHost X (ReqHost req)) = None \<longrightarrow>
      queue (submitToFeed X h req code) = queue h
      \<and> receiver (submitToFeed X h req code) = receiver h
      \<and> logged (submitToFeed X h req code)
          = logged h @ [ERR (''tracking skipped, site-id is unknown: ''
                              @ parseDomainFromHost X (ReqHost req))])
   \<and> (\<forall>e. e \<in> set (queue (submitToFeed X h req code)) \<and> e \<notin> set (queue h) \<longrightarrow>
          evHostname e = parseDomainFromHost X (ReqHost req)
          \<and> map_of (websites h) (evHostname e) = Some (evSiteID e))
   \<and> (\<forall>e. receiver (submitToFeed X h req code) = Handed e \<and> receiver h \<noteq> Handed e \<longrightarrow>
          evHostname e = parseDomainFromHost X (ReqHost req)
          \<and> map_of (websites h) (evHostname e) = Some (evSiteID e))"
proof (cases "map_of (websites h) (parseDomainFromHost X (ReqHost req))")
  case None
  then show ?thesis
    by (simp add: submitToFeed_unknown error_keeps)
next
  case (Some known)
  then show ?thesis
    by (auto simp: submitToFeed_known error_keeps mkEvent_def)
qed

theorem submitToFeed_site_id_witness:
  "map_of (websites testFeeder) (parseDomainFromHost (testEnv []) ''unknown.test'') = None
   \<and> queue (submitToFeed (testEnv []) testFeeder (testRequest\<lparr>ReqHost := ''unknown.test''\<rparr>) 200) = []
   \<and> testEvent ''/pricing'' \<in> set (queue (submitToFeed (testEnv []) testFeeder testRequest 200))
   \<and> testEvent ''/pricing'' \<notin> set (queue testFeeder)
   \<and> map_of (websites testFeeder) (evHostname (testEvent ''/pricing''))
       = Some (evSiteID (testEvent ''/pricing''))"
  using submitToFeed_site_id [of testFeeder "testEnv []" "testRequest\<lparr>ReqHost := ''unknown.test''\<rparr>" 200]
        submitToFeed_site_id [of testFeeder "testEnv []" testRequest 200]
  by (simp add: fixture_defs enqueue_defs)

subsection \<open>The IP step of the filter\<close>

lemmas filter_defs =
  shouldTrack_def ipStep_def requestIp_def shouldTrackResource_def Ext_def ServeHTTP_def
  WriteHeader_def shouldTrackStatus_def ipv4ParseAddr_def decOctet_def ipv4Contains_def

lemma ipStep_without_prefixes: "ignorePrefixes h = [] \<Longrightarrow> ipStep X h req = (h, Pass)"
  by (simp add: ipStep_def)

lemma ipStep_verdict:
  "snd (ipStep X h req)
     = (if ignorePrefixes h \<noteq> []
           \<and> (case ParseAddr X (requestIp h req) of
                 None \<Rightarrow> True
               | Some ip \<Rightarrow> \<exists>prefix \<in> set (ignorePrefixes h). PrefixContains X prefix ip)
        then Exclude else Pass)"
  by (simp add: ipStep_def list_ex_iff split: option.splits)

lemma shouldTrack_unparsable:
  "ignorePrefixes h \<noteq> [] \<Longrightarrow> ParseAddr X (requestIp h req) = None \<Longrightarrow>
   shouldTrack X h req = (debug h ''invalid IP %s'' [AStr (requestIp h req)], False)"
  by (simp add: shouldTrack_def ipStep_def)

lemma shouldTrack_contained:
  "ignorePrefixes h \<noteq> [] \<Longrightarrow> ParseAddr X (requestIp h req) = Some ip \<Longrightarrow>
   \<exists>prefix \<in> set (ignorePrefixes h). PrefixContains X prefix ip \<Longrightarrow>
   shouldTrack X h req = (debug h ''ignoring IP %s'' [AStr (AddrString X ip)], False)"
  by (simp add: shouldTrack_def ipStep_def list_ex_iff)

lemma shouldTrackResource_prefixes:
  "shouldTrackResource (h\<lparr>ignorePrefixes := ps\<rparr>) p = shouldTrackResource h p"
  by (simp add: shouldTrackResource_def)

lemma shouldTrack_after_Pass:
  assumes "snd (ipStep X h req) = Pass"
  shows "snd (shouldTrack X h req) = snd (shouldTrack X (h\<lparr>ignorePrefixes := []\<rparr>) req)"
proof -
  from assms obtain h1 where here: "ipStep X h req = (h1, Pass)"
    by (cases "ipStep X h req") simp
  have there: "ipStep X (h\<lparr>ignorePrefixes := []\<rparr>) req = (h\<lparr>ignorePrefixes := []\<rparr>, Pass)"
    by (simp add: ipStep_def)
  show ?thesis
    unfolding shouldTrack_def here there
    by (simp add: shouldTrackResource_prefixes split: option.splits)
qed

lemma shouldTrack_not_contained:
  "ignorePrefixes h \<noteq> [] \<Longrightarrow> ParseAddr X (requestIp h req) = Some ip \<Longrightarrow>
   \<not> (\<exists>prefix \<in> set (ignorePrefixes h). PrefixContains X prefix ip) \<Longrightarrow>
   snd (shouldTrack X h req) = snd (shouldTrack X (h\<lparr>ignorePrefixes := []\<rparr>) req)"
  by (rule shouldTrack_after_Pass) (simp add: ipStep_verdict)

lemma shouldTrack_without_prefixes:
  "ignorePrefixes h = [] \<Longrightarrow> shouldTrack (X\<lparr>ParseAddr := f\<rparr>) h req = shouldTrack X h req"
  by (simp add: shouldTrack_def ipStep_def split: option.splits)

lemma ServeHTTP_not_tracked:
  "\<not> snd (shouldTrack X h req) \<Longrightarrow>
   ServeHTTP X nxt h req = (if isDisabled h then h else fst (shouldTrack X h req), nxt req)"
  by (cases "shouldTrack X h req") (simp add: ServeHTTP_def)

text \<open>
  C9. The claim is that for every request the IP step resolves the address
  and that an unparsable address always makes the request non-trackable. The
  step is guarded by the list of ignored prefixes: with none configured, which
  is the default, the address is not looked at and a request whose address
  does not parse is tracked.
\<close>

theorem shouldTrack_unparsable_tracked_counterexample:
  "ignorePrefixes testFeeder = []
   \<and> ParseAddr (testEnv []) (requestIp testFeeder (testRequest\<lparr>HeaderGet := (\<lambda>k. '''')\<rparr>)) = None
   \<and> snd (shouldTrack (testEnv []) testFeeder (testRequest\<lparr>HeaderGet := (\<lambda>k. '''')\<rparr>))"
  by (simp add: fixture_defs filter_defs UserAgent_def)

text \<open>
  C9 as amended. The address the IP step resolves is the configured header,
  or the remote address when that header is empty. With ignored prefixes
  configured, \<^verbatim>\<open>shouldTrack\<close> excludes the request when that value does not
  parse as an address, and when it parses and some prefix contains the
  address; when it parses and no prefix contains it, the remaining checks
  decide, as they would without any prefix. With no prefix configured the step
  is skipped: the outcome does not depend on how the value parses. A request
  that is not tracked is handed to the next handler with the proxy's own
  writer, and the feeder is left as it was up to a debug line.
\<close>

theorem shouldTrack_ip_step:
  "requestIp h req
     = (if HeaderGet req (headerIp h) = '''' then RemoteAddr req else HeaderGet req (headerIp h))
   \<and> (ignorePrefixes h \<noteq> [] \<and> ParseAddr X (requestIp h req) = None \<longrightarrow>
        shouldTrack X h req = (debug h ''invalid IP %s'' [AStr (requestIp h req)], False))
   \<and> (\<forall>ip. ignorePrefixes h \<noteq> [] \<and> ParseAddr X (requestIp h req) = Some ip \<longrightarrow>
        ((\<exists>prefix \<in> set (ignorePrefixes h). PrefixContains X prefix ip) \<longrightarrow>
           shouldTrack X h req = (debug h ''ignoring IP %s'' [AStr (AddrString X ip)], False))
        \<and> (\<not> (\<exists>prefix \<in> set (ignorePrefixes h). PrefixContains X prefix ip) \<longrightarrow>
             snd (shouldTrack X h req) = snd (shouldTrack X (h\<lparr>ignorePrefixes := []\<rparr>) req)))
   \<and> (ignorePrefixes h = [] \<longrightarrow>
        (\<forall>f. shouldTrack (X\<lparr>ParseAddr := f\<rparr>) h req = shouldTrack X h req))
   \<and> (\<not> snd (shouldTrack X h req) \<longrightarrow>
        ServeHTTP X nxt h req = (if isDisabled h then h else fst (shouldTrack X h req), nxt req))"
proof -
  have resolve: "requestIp h req
       = (if HeaderGet req (headerIp h) = '''' then RemoteAddr req else HeaderGet req (headerIp h))"
    by (simp add: requestIp_def)
  have unparsable: "ignorePrefixes h \<noteq> [] \<and> ParseAddr X (requestIp h req) = None \<longrightarrow>
        shouldTrack X h req = (debug h ''invalid IP %s'' [AStr (requestIp h req)], False)"
    using shouldTrack_unparsable [of h X req] by blast
  have parsable: "\<forall>ip. ignorePrefixes h \<noteq> [] \<and> ParseAddr X (requestIp h req) = Some ip \<longrightarrow>
        ((\<exists>prefix \<in> set (ignorePrefixes h). PrefixContains X prefix ip) \<longrightarrow>
           shouldTrack X h req = (debug h ''ignoring IP %s'' [AStr (AddrString X ip)], False))
        \<and> (\<not> (\<exists>prefix \<in> set (ignorePrefixes h). PrefixContains X prefix ip) \<longrightarrow>
             snd (shouldTrack X h req) = snd (shouldTrack X (h\<lparr>ignorePrefixes := []\<rparr>) req))"
    using shouldTrack_contained [of h X req] shouldTrack_not_contained [of h X req] by blast
  have skipped: "ignorePrefixes h = [] \<longrightarrow>
        (\<forall>f. shouldTrack (X\<lparr>ParseAddr := f\<rparr>) h req = shouldTrack X h req)"
    using shouldTrack_without_prefixes [where h = h and X = X and req = req] by blast
  have outer: "\<not> snd (shouldTrack X h req) \<longrightarrow>
        ServeHTTP X nxt h req = (if isDisabled h then h else fst (shouldTrack X h req), nxt req)"
    using ServeHTTP_not_tracked [of X h req nxt] by blast
  from resolve unparsable parsable skipped outer show ?thesis by blast
qed

theorem shouldTrack_ip_step_witness:
  "ignorePrefixes (testFeeder\<lparr>ignorePrefixes := [(167772160, 8)]\<rparr>) \<noteq> []
   \<and> ParseAddr (testEnv []) (requestIp (testFeeder\<lparr>ignorePrefixes := [(167772160, 8)]\<rparr>)
                                (testRequest\<lparr>HeaderGet := (\<lambda>k. '''')\<rparr>)) = None
   \<and> shouldTrack (testEnv []) (testFeeder\<lparr>ignorePrefixes := [(167772160, 8)]\<rparr>)
        (testRequest\<lparr>HeaderGet := (\<lambda>k. '''')\<rparr>)
       = (testFeeder\<lparr>ignorePrefixes := [(167772160, 8)]\<rparr>, False)
   \<and> ServeHTTP (testEnv []) (\<lambda>r. [200]) (testFeeder\<lparr>ignorePrefixes := [(167772160, 8)]\<rparr>)
        (testRequest\<lparr>HeaderGet := (\<lambda>k. '''')\<rparr>)
       = (testFeeder\<lparr>ignorePrefixes := [(167772160, 8)]\<rparr>, [200])
   \<and> ParseAddr (testEnv []) (requestIp (testFeeder\<lparr>ignorePrefixes := [(167772160, 8)]\<rparr>) testRequest)
       = Some 167838211
   \<and> (\<exists>prefix \<in> set (ignorePrefixes (testFeeder\<lparr>ignorePrefixes := [(167772160, 8)]\<rparr>)).
         PrefixContains (testEnv []) prefix 167838211)
   \<and> \<not> snd (shouldTrack (testEnv []) (testFeeder\<lparr>ignorePrefixes := [(167772160, 8)]\<rparr>) testRequest)
   \<and> ParseAddr (testEnv []) (requestIp (testFeeder\<lparr>ignorePrefixes := [(167772160, 8)]\<rparr>)
                                (testRequest\<lparr>HeaderGet := (\<lambda>k. if k = ''X-Real-Ip'' then ''192.0.2.7'' else '''')\<rparr>))
       = Some 3221225991
   \<and> \<not> (\<exists>prefix \<in> set (ignorePrefixes (testFeeder\<lparr>ignorePrefixes := [(167772160, 8)]\<rparr>)).
           PrefixContains (testEnv []) prefix 3221225991)
   \<and> snd (shouldTrack (testEnv []) (testFeeder\<lparr>ignorePrefixes := [(167772160, 8)]\<rparr>)
            (testRequest\<lparr>HeaderGet := (\<lambda>k. if k = ''X-Real-Ip'' then ''192.0.2.7'' else '''')\<rparr>))
   \<and> ignorePrefixes testFeeder = []
   \<and> shouldTrack ((testEnv [])\<lparr>ParseAddr := (\<lambda>s. None)\<rparr>) testFeeder testRequest
       = shouldTrack (testEnv []) testFeeder testRequest"
  using shouldTrack_ip_step
          [of "testFeeder\<lparr>ignorePrefixes := [(167772160, 8)]\<rparr>"
              "testRequest\<lparr>HeaderGet := (\<lambda>k. '''')\<rparr>" "testEnv []" "\<lambda>r. [200]"]
        shouldTrack_ip_step
          [of "testFeeder\<lparr>ignorePrefixes := [(167772160, 8)]\<rparr>" testRequest "testEnv []" "\<lambda>r. [200]"]
        shouldTrack_ip_step
          [of "testFeeder\<lparr>ignorePrefixes := [(167772160, 8)]\<rparr>"
              "testRequest\<lparr>HeaderGet := (\<lambda>k. if k = ''X-Real-Ip'' then ''192.0.2.7'' else '''')\<rparr>"
              "testEnv []" "\<lambda>r. [200]"]
        shouldTrack_ip_step [of testFeeder testRequest "testEnv []" "\<lambda>r. [200]"]
  by (simp add: fixture_defs filter_defs UserAgent_def debug_def)

subsection \<open>The response writer\<close>

lemma shouldTrackStatus_eq:
  "shouldTrackStatus h code
     = (if code < 400 \<or> trackErrors h then (h, True)
        else (debug h ''not reporting %d error'' [AInt code], False))"
  by (simp add: shouldTrackStatus_def)

lemma submitToFeed_keeps:
  "websites (submitToFeed X h req code) = websites h"
  "trackErrors (submitToFeed X h req code) = trackErrors h"
  "queueCap (submitToFeed X h req code) = queueCap h"
  by (simp_all add: submitToFeed_def Let_def error_keeps split: option.splits)

lemma submitToFeed_enqueues:
  "map_of (websites h) (parseDomainFromHost X (ReqHost req)) = Some sid \<Longrightarrow>
   length (queue h) < queueCap h \<Longrightarrow>
   inFlight (submitToFeed X h req code) = Suc (inFlight h)
   \<and> length (queue (submitToFeed X h req code)) \<le> Suc (length (queue h))"
  by (simp add: submitToFeed_known inFlight_def)

lemma submitToFeed_receiver:
  "receiver h \<noteq> Blocked \<Longrightarrow> receiver (submitToFeed X h req code) = receiver h"
  by (cases "map_of (websites h) (parseDomainFromHost X (ReqHost req))")
     (simp_all add: submitToFeed_known submitToFeed_unknown error_keeps)

lemma inFlight_debug: "inFlight (debug h f v) = inFlight h"
  by (simp add: inFlight_def debug_keeps)

lemma WriteHeader_eq:
  "WriteHeader X code (h, rw)
     = (if code < 400 \<or> trackErrors h then submitToFeed X h (request rw) code
        else debug h ''not reporting %d error'' [AInt code],
        rw\<lparr>forwarded := forwarded rw @ [code]\<rparr>)"
  by (simp add: WriteHeader_def shouldTrackStatus_eq)

lemma fold_WriteHeader_receiver:
  "receiver h \<noteq> Blocked \<Longrightarrow> receiver (fst (fold (WriteHeader X) codes (h, rw))) = receiver h"
proof (induction codes arbitrary: h rw)
  case Nil
  then show ?case by simp
next
  case (Cons code codes)
  define h1 where "h1 = fst (WriteHeader X code (h, rw))"
  define rw1 where "rw1 = snd (WriteHeader X code (h, rw))"
  have same: "receiver h1 = receiver h"
    using Cons.prems by (simp add: h1_def WriteHeader_eq submitToFeed_receiver debug_keeps)
  with Cons.prems have "receiver h1 \<noteq> Blocked"
    by simp
  from Cons.IH [OF this, of rw1] same show ?case
    by (simp add: h1_def rw1_def)
qed

lemma fold_WriteHeader_count:
  "map_of (websites h) (parseDomainFromHost X (ReqHost (request rw))) = Some sid \<Longrightarrow>
   length (queue h) + length (filter (\<lambda>c. c < 400 \<or> trackErrors h) codes) \<le> queueCap h \<Longrightarrow>
   inFlight (fst (fold (WriteHeader X) codes (h, rw)))
     = inFlight h + length (filter (\<lambda>c. c < 400 \<or> trackErrors h) codes)"
proof (induction codes arbitrary: h rw)
  case Nil
  then show ?case by simp
next
  case (Cons code codes)
  let ?acc = "\<lambda>h c. c < 400 \<or> trackErrors h"
  define h1 where "h1 = (if ?acc h code then submitToFeed X h (request rw) code
                          else debug h ''not reporting %d error'' [AInt code])"
  define rw1 where "rw1 = rw\<lparr>forwarded := forwarded rw @ [code]\<rparr>"
  have step: "WriteHeader X code (h, rw) = (h1, rw1)"
    by (simp add: WriteHeader_eq h1_def rw1_def)
  have keep:
    "websites h1 = websites h" "trackErrors h1 = trackErrors h" "queueCap h1 = queueCap h"
    "request rw1 = request rw"
    by (simp_all add: h1_def rw1_def submitToFeed_keeps debug_keeps)
  have len: "inFlight h1 = inFlight h + (if ?acc h code then 1 else 0)
             \<and> length (queue h1) \<le> length (queue h) + (if ?acc h code then 1 else 0)"
  proof (cases "?acc h code")
    case True
    with Cons.prems(2) have "length (queue h) < queueCap h" by simp
    from submitToFeed_enqueues [OF Cons.prems(1) this, of code] True show ?thesis
      by (simp add: h1_def)
  next
    case False
    then show ?thesis by (simp add: h1_def debug_keeps inFlight_debug)
  qed
  have site: "map_of (websites h1) (parseDomainFromHost X (ReqHost (request rw1))) = Some sid"
    using Cons.prems(1) keep by simp
  define n where "n = length (filter (?acc h) codes)"
  have n1: "length (filter (?acc h1) codes) = n"
    by (simp only: n_def keep(2))
  have total: "length (filter (?acc h) (code # codes)) = (if ?acc h code then 1 else 0) + n"
    by (simp add: n_def)
  have room: "length (queue h1) + length (filter (?acc h1) codes) \<le> queueCap h1"
    using Cons.prems(2) len unfolding n1 keep(3) total by linarith
  have "inFlight (fst (fold (WriteHeader X) (code # codes) (h, rw)))
          = inFlight h1 + length (filter (?acc h1) codes)"
    using Cons.IH [OF site room] by (simp add: step)
  also have "\<dots> = inFlight h + length (filter (?acc h) (code # codes))"
    using len unfolding n1 total by linarith
  finally show ?case .
qed

lemma fold_WriteHeader_buffered:
  "receiver h \<noteq> Blocked \<Longrightarrow>
   map_of (websites h) (parseDomainFromHost X (ReqHost (request rw))) = Some sid \<Longrightarrow>
   length (queue h) + length (filter (\<lambda>c. c < 400 \<or> trackErrors h) codes) \<le> queueCap h \<Longrightarrow>
   length (queue (fst (fold (WriteHeader X) codes (h, rw))))
     = length (queue h) + length (filter (\<lambda>c. c < 400 \<or> trackErrors h) codes)"
  using fold_WriteHeader_count [of h X rw sid codes] fold_WriteHeader_receiver [of h X codes rw]
  by (simp add: inFlight_def)

text \<open>
  Whatever a request does, the queue stays within its capacity: each
  \<^verbatim>\<open>WriteHeader\<close> on the wrapped writer, any sequence of them, and so
  \<^verbatim>\<open>ServeHTTP\<close> as a whole.
\<close>

lemma WriteHeader_within:
  "length (queue h) \<le> queueCap h \<Longrightarrow>
   length (queue (fst (WriteHeader X code (h, rw)))) \<le> queueCap (fst (WriteHeader X code (h, rw)))"
  by (simp add: WriteHeader_eq submitToFeed_within debug_keeps)

lemma fold_WriteHeader_within:
  "length (queue h) \<le> queueCap h \<Longrightarrow>
   length (queue (fst (fold (WriteHeader X) codes (h, rw))))
     \<le> queueCap (fst (fold (WriteHeader X) codes (h, rw)))"
proof (induction codes arbitrary: h rw)
  case Nil
  then show ?case by simp
next
  case (Cons code codes)
  obtain h1 rw1 where step: "WriteHeader X code (h, rw) = (h1, rw1)"
    by (cases "WriteHeader X code (h, rw)") auto
  with WriteHeader_within [OF Cons.prems, of X code rw] have "length (queue h1) \<le> queueCap h1"
    by simp
  from Cons.IH [OF this, of rw1] step show ?case
    by simp
qed

lemma shouldTrack_queue:
  "queue (fst (shouldTrack X h req)) = queue h \<and> queueCap (fst (shouldTrack X h req)) = queueCap h"
  by (simp add: shouldTrack_def ipStep_def debug_keeps
           split: prod.splits verdict.splits option.splits)

lemma ServeHTTP_within:
  "length (queue h) \<le> queueCap h \<Longrightarrow>
   length (queue (fst (ServeHTTP X nxt h req))) \<le> queueCap (fst (ServeHTTP X nxt h req))"
proof (cases "isDisabled h")
  case True
  assume "length (queue h) \<le> queueCap h"
  with True show ?thesis by (simp add: ServeHTTP_def)
next
  case False
  assume bound: "length (queue h) \<le> queueCap h"
  obtain h1 track where st: "shouldTrack X h req = (h1, track)"
    by (cases "shouldTrack X h req") auto
  with shouldTrack_queue [of X h req] bound have b1: "length (queue h1) \<le> queueCap h1"
    by simp
  show ?thesis
  proof (cases track)
    case True
    with False st fold_WriteHeader_within [OF b1, of X "nxt req" "\<lparr>request = req, forwarded = []\<rparr>"]
    show ?thesis by (auto simp: ServeHTTP_def split: prod.splits)
  next
    case no: False
    with False st b1 show ?thesis by (simp add: ServeHTTP_def)
  qed
qed

text \<open>
  C5. The claim is that only the first write of response headers evaluates the
  status filter and enqueues, so that one request yields at most one event. The
  wrapper keeps no record of earlier calls: a handler that writes 103 and then
  200 for one request puts two events on the queue.
\<close>

theorem WriteHeader_twice_counterexample:
  "length (queue (fst (ServeHTTP (testEnv []) (\<lambda>r. [103, 200]) testFeeder testRequest))) = 2"
  by (simp add: fixture_defs filter_defs enqueue_defs)

text \<open>
  C5 as amended. On every write of response headers the wrapper evaluates the
  status filter, submits an event if the status is accepted, and passes the
  status on to the wrapped writer. For a known site and a queue with room, the
  calls made for one request enqueue as many events as there are accepted
  statuses among them: that many more events are in the buffer, or, when the
  worker is blocked in its receive, in the buffer and in its hands.
\<close>

theorem WriteHeader_every_call:
  "fst (WriteHeader X code (h, rw))
     = (if code < 400 \<or> trackErrors h then submitToFeed X h (request rw) code
        else debug h ''not reporting %d error'' [AInt code])
   \<and> forwarded (snd (WriteHeader X code (h, rw))) = forwarded rw @ [code]
   \<and> (receiver h \<noteq> Blocked
        \<and> map_of (websites h) (parseDomainFromHost X (ReqHost (request rw))) = Some sid
        \<and> length (queue h) + length (filter (\<lambda>c. c < 400 \<or> trackErrors h) codes) \<le> queueCap h
      \<longrightarrow> length (queue (fst (fold (WriteHeader X) codes (h, rw))))
            = length (queue h) + length (filter (\<lambda>c. c < 400 \<or> trackErrors h) codes))
   \<and> (map_of (websites h) (parseDomainFromHost X (ReqHost (request rw))) = Some sid
        \<and> length (queue h) + length (filter (\<lambda>c. c < 400 \<or> trackErrors h) codes) \<le> queueCap h
      \<longrightarrow> inFlight (fst (fold (WriteHeader X) codes (h, rw)))
            = inFlight h + length (filter (\<lambda>c. c < 400 \<or> trackErrors h) codes))"
  using fold_WriteHeader_count [of h X rw sid codes] fold_WriteHeader_buffered [of h X rw sid codes]
  by (simp add: WriteHeader_eq)

theorem WriteHeader_every_call_witness:
  "receiver testFeeder \<noteq> Blocked
   \<and> map_of (websites testFeeder)
      (parseDomainFromHost (testEnv []) (ReqHost (request \<lparr>request = testRequest, forwarded = []\<rparr>)))
     = Some ''1''
   \<and> length (queue testFeeder)
       + length (filter (\<lambda>c. c < 400 \<or> trackErrors testFeeder) [200, 404, 200 :: int])
       \<le> queueCap testFeeder
   \<and> length (queue (fst (fold (WriteHeader (testEnv [])) [200, 404, 200]
                            (testFeeder, \<lparr>request = testRequest, forwarded = []\<rparr>)))) = 2
   \<and> inFlight (fst (fold (WriteHeader (testEnv [])) [200, 404, 200]
                       (testFeeder\<lparr>receiver := Blocked\<rparr>, \<lparr>request = testRequest, forwarded = []\<rparr>)))
       = 2"
  using WriteHeader_every_call
          [of "testEnv []" 200 testFeeder "\<lparr>request = testRequest, forwarded = []\<rparr>" "''1''"
              "[200, 404, 200]"]
        WriteHeader_every_call
          [of "testEnv []" 200 "testFeeder\<lparr>receiver := Blocked\<rparr>"
              "\<lparr>request = testRequest, forwarded = []\<rparr>" "''1''" "[200, 404, 200]"]
  by (simp add: fixture_defs inFlight_def)

subsection \<open>Delivery\<close>

lemma sendRequest_eq:
  "sendRequest X h url body
     = (h\<lparr>wire := wire h @ [mkRequest url body]\<rparr>, network X (length (wire h)) (mkRequest url body))"
  by (simp add: sendRequest_def)

lemma reportEvents_Cons:
  "reportEvents X h (val # events)
     = (case network X (length (wire h))
               \<lparr>reqMethod = POST, reqURL = host h @ ''/api/track'',
                reqBody = Some (JEvent (Payload val))\<rparr> of
          Err e \<Rightarrow> (error (h\<lparr>wire := wire h @ [\<lparr>reqMethod = POST, reqURL = host h @ ''/api/track'',
                                                     reqBody = Some (JEvent (Payload val))\<rparr>]\<rparr>)
                           (''failed to send tracking: '' @ e), None)
        | Panic p \<Rightarrow> (h\<lparr>wire := wire h @ [\<lparr>reqMethod = POST, reqURL = host h @ ''/api/track'',
                                               reqBody = Some (JEvent (Payload val))\<rparr>]\<rparr>, Some p)
        | Ok resp \<Rightarrow>
            reportEvents X
              (debug (h\<lparr>wire := wire h @ [\<lparr>reqMethod = POST, reqURL = host h @ ''/api/track'',
                                               reqBody = Some (JEvent (Payload val))\<rparr>]\<rparr>)
                 ''%v: %s'' [AStr (Status resp), AStr (Body resp)])
              events)"
  by (simp add: sendRequest_eq mkRequest_def debug_def split: result.splits)

lemma reportEvents_wire:
  "\<exists>k \<le> length events.
     (events \<noteq> [] \<longrightarrow> 0 < k) \<and>
     wire (fst (reportEvents X h events))
       = wire h @ map (\<lambda>sb. \<lparr>reqMethod = POST, reqURL = host h @ ''/api/track'',
                               reqBody = Some (JEvent (Payload sb))\<rparr>) (take k events)"
proof (induction events arbitrary: h)
  case Nil
  then show ?case by simp
next
  case (Cons val events)
  let ?rq = "\<lambda>h sb. \<lparr>reqMethod = POST, reqURL = host h @ ''/api/track'',
                       reqBody = Some (JEvent (Payload sb))\<rparr>"
  define h1 where "h1 = h\<lparr>wire := wire h @ [?rq h val]\<rparr>"
  show ?case
  proof (cases "network X (length (wire h)) (?rq h val)")
    case (Ok resp)
    define h2 where "h2 = debug h1 ''%v: %s'' [AStr (Status resp), AStr (Body resp)]"
    have run: "reportEvents X h (val # events) = reportEvents X h2 events"
      by (simp only: reportEvents_Cons Ok result.case h2_def h1_def)
    have h2: "wire h2 = wire h @ [?rq h val]" "host h2 = host h"
      by (simp_all add: h2_def h1_def debug_keeps)
    from Cons.IH [of h2] obtain k where k: "k \<le> length events"
      "wire (fst (reportEvents X h2 events)) = wire h2 @ map (?rq h2) (take k events)"
      by blast
    have "wire (fst (reportEvents X h (val # events)))
            = wire h @ map (?rq h) (take (Suc k) (val # events))"
      unfolding run k(2) h2 by simp
    with k(1) show ?thesis
      by (intro exI [of _ "Suc k"]) simp
  next
    case (Err e)
    have "reportEvents X h (val # events) = (error h1 (''failed to send tracking: '' @ e), None)"
      by (simp only: reportEvents_Cons Err result.case h1_def)
    then have "wire (fst (reportEvents X h (val # events)))
                 = wire h @ map (?rq h) (take (Suc 0) (val # events))"
      by (simp add: error_keeps h1_def)
    then show ?thesis
      by (intro exI [of _ "Suc 0"]) simp
  next
    case (Panic p)
    have "reportEvents X h (val # events) = (h1, Some p)"
      by (simp only: reportEvents_Cons Panic result.case h1_def)
    then have "wire (fst (reportEvents X h (val # events)))
                 = wire h @ map (?rq h) (take (Suc 0) (val # events))"
      by (simp add: h1_def)
    then show ?thesis
      by (intro exI [of _ "Suc 0"]) simp
  qed
qed

lemma reportEvents_wire_all:
  "\<forall>n r. \<exists>resp. network X n r = Ok resp \<Longrightarrow>
   wire (fst (reportEvents X h events))
     = wire h @ map (\<lambda>sb. \<lparr>reqMethod = POST, reqURL = host h @ ''/api/track'',
                             reqBody = Some (JEvent (Payload sb))\<rparr>) events
   \<and> snd (reportEvents X h events) = None"
proof (induction events arbitrary: h)
  case Nil
  then show ?case by simp
next
  case (Cons val events)
  let ?rq = "\<lambda>h sb. \<lparr>reqMethod = POST, reqURL = host h @ ''/api/track'',
                       reqBody = Some (JEvent (Payload sb))\<rparr>"
  define h1 where "h1 = h\<lparr>wire := wire h @ [?rq h val]\<rparr>"
  from Cons.prems obtain resp where ok: "network X (length (wire h)) (?rq h val) = Ok resp"
    by blast
  define h2 where "h2 = debug h1 ''%v: %s'' [AStr (Status resp), AStr (Body resp)]"
  have run: "reportEvents X h (val # events) = reportEvents X h2 events"
    by (simp only: reportEvents_Cons ok result.case h2_def h1_def)
  have h2: "wire h2 = wire h @ [?rq h val]" "host h2 = host h"
    by (simp_all add: h2_def h1_def debug_keeps)
  from Cons.IH [OF Cons.prems, of h2] show ?case
    unfolding run h2 by simp
qed

text \<open>
  C4. The claim is that the body of each delivery is the envelope
  \<open>{"payload": event, "type": "event"}\<close>. \<^verbatim>\<open>reportEventsToUmami\<close> passes
  \<^verbatim>\<open>value.Payload\<close> to \<^verbatim>\<open>sendRequest\<close>: the body is the bare event, and
  the envelope the worker built around it is not sent.
\<close>

theorem reportEventsToUmami_body_counterexample:
  "map reqBody (wire (fst (reportEventsToUmami (testEnv [ok200]) testFeeder
                             [\<lparr>Payload = testEvent ''/a'', sbType = ''event''\<rparr>])))
     = [Some (JEvent (testEvent ''/a''))]
   \<and> Some (JEvent (testEvent ''/a''))
       \<noteq> Some (JEnvelope \<lparr>Payload = testEvent ''/a'', sbType = ''event''\<rparr>)"
  by (simp add: reportEventsToUmami_def sendRequest_eq mkRequest_def fixture_defs debug_def)

text \<open>
  C4 as amended. Every request of a flush is an HTTP POST to \<open>{host}/api/track\<close>
  whose body is the bare event, one request per event in batch order up to and
  including the first that fails; all events of the batch when every request is
  answered.
\<close>

theorem reportEventsToUmami_wire:
  "(\<exists>k \<le> length events.
      (events \<noteq> [] \<longrightarrow> 0 < k) \<and>
      wire (fst (reportEventsToUmami X h events))
        = wire h @ map (\<lambda>sb. \<lparr>reqMethod = POST, reqURL = host h @ ''/api/track'',
                                reqBody = Some (JEvent (Payload sb))\<rparr>) (take k events))
   \<and> ((\<forall>n r. \<exists>resp. network X n r = Ok resp) \<longrightarrow>
        wire (fst (reportEventsToUmami X h events))
          = wire h @ map (\<lambda>sb. \<lparr>reqMethod = POST, reqURL = host h @ ''/api/track'',
                                  reqBody = Some (JEvent (Payload sb))\<rparr>) events)"
  using reportEvents_wire [of events X "debug h ''reporting %d events'' [AInt (int (length events))]"]
        reportEvents_wire_all [of X "debug h ''reporting %d events'' [AInt (int (length events))]" events]
  by (simp add: reportEventsToUmami_def debug_keeps)

theorem reportEventsToUmami_wire_witness:
  "(\<forall>n r. \<exists>resp. network ((testEnv [])\<lparr>network := (\<lambda>n r. ok200)\<rparr>) n r = Ok resp)
   \<and> wire (fst (reportEventsToUmami ((testEnv [])\<lparr>network := (\<lambda>n r. ok200)\<rparr>) testFeeder
                  [\<lparr>Payload = testEvent ''/a'', sbType = ''event''\<rparr>,
                   \<lparr>Payload = testEvent ''/b'', sbType = ''event''\<rparr>]))
       = [\<lparr>reqMethod = POST, reqURL = ''http://rybbit.test/api/track'',
           reqBody = Some (JEvent (testEvent ''/a''))\<rparr>,
          \<lparr>reqMethod = POST, reqURL = ''http://rybbit.test/api/track'',
           reqBody = Some (JEvent (testEvent ''/b''))\<rparr>]"
  using reportEventsToUmami_wire
          [of "[\<lparr>Payload = testEvent ''/a'', sbType = ''event''\<rparr>,
                \<lparr>Payload = testEvent ''/b'', sbType = ''event''\<rparr>]"
              "(testEnv [])\<lparr>network := (\<lambda>n r. ok200)\<rparr>" testFeeder]
  by (simp add: fixture_defs)

subsection \<open>The batching worker\<close>

lemmas worker_defs =
  flushThen_def resetTimer_def reportEventsToUmami_def sendRequest_def mkRequest_def
  umamiEventFeeder_def newWorker_def wake_def taken_def park_def Let_def error_def debug_def

lemma flushThen_fst:
  "fst (flushThen X h w after ex) = fst (reportEventsToUmami X h (batch w))"
  by (simp add: flushThen_def split: prod.splits option.splits)

lemma flushThen_no_fault:
  "snd (reportEventsToUmami X h (batch w)) = None \<Longrightarrow>
   snd (flushThen X h w after ex) = (after w, ex)"
  by (cases "reportEventsToUmami X h (batch w)") (simp add: flushThen_def)

lemma flushThen_exit:
  "snd (snd (flushThen X h w after ex)) = ex \<or> (\<exists>p. snd (snd (flushThen X h w after ex)) = Fault p)"
  by (simp add: flushThen_def split: prod.splits option.splits)

text \<open>
  C6. One iteration of the worker loop. Receiving an event that brings the
  batch to the batch size (or beyond) flushes the batch at once, and the batch
  is emptied and the timer restarted; below the batch size the event is only
  appended. When the timer fires, a non-empty batch is flushed and emptied, an
  empty one is not, and the timer is restarted either way. On cancellation a
  non-empty batch is flushed and the loop is left. Flushing is the call of
  \<^verbatim>\<open>reportEventsToUmami\<close> on the batch; the state after it is given for a
  flush that does not fault.
\<close>

theorem workerStep_flush_triggers:
  "(queue h = event # pending \<and> batchSize h \<le> int (length (batch w)) + 1 \<longrightarrow>
      fst (workerStep X QueueRecv h w)
        = fst (reportEventsToUmami X (h\<lparr>queue := pending\<rparr>)
                 (batch w @ [\<lparr>Payload = event, sbType = ''event''\<rparr>]))
      \<and> (snd (reportEventsToUmami X (h\<lparr>queue := pending\<rparr>)
                 (batch w @ [\<lparr>Payload = event, sbType = ''event''\<rparr>])) = None \<longrightarrow>
           snd (workerStep X QueueRecv h w)
             = (w\<lparr>batch := [], timer := batchMaxWait h, timerResets := Suc (timerResets w)\<rparr>,
                Continue)))
   \<and> (queue h = event # pending \<and> int (length (batch w)) + 1 < batchSize h \<longrightarrow>
        workerStep X QueueRecv h w
          = (h\<lparr>queue := pending\<rparr>,
             w\<lparr>batch := batch w @ [\<lparr>Payload = event, sbType = ''event''\<rparr>]\<rparr>, Continue))
   \<and> (batch w \<noteq> [] \<longrightarrow>
        fst (workerStep X TimeoutFired h w) = fst (reportEventsToUmami X h (batch w))
        \<and> (snd (reportEventsToUmami X h (batch w)) = None \<longrightarrow>
             snd (workerStep X TimeoutFired h w)
               = (w\<lparr>batch := [], timer := batchMaxWait h, timerResets := Suc (timerResets w)\<rparr>,
                  Continue)))
   \<and> (batch w = [] \<longrightarrow>
        workerStep X TimeoutFired h w
          = (h, w\<lparr>timer := batchMaxWait h, timerResets := Suc (timerResets w)\<rparr>, Continue))
   \<and> (batch w \<noteq> [] \<longrightarrow>
        fst (workerStep X CtxDone h w)
          = fst (reportEventsToUmami X (debug h ''worker shutting down (canceled)'' []) (batch w))
        \<and> snd (snd (workerStep X CtxDone h w)) \<noteq> Continue
        \<and> (snd (reportEventsToUmami X (debug h ''worker shutting down (canceled)'' []) (batch w))
              = None \<longrightarrow>
             snd (workerStep X CtxDone h w) = (w, ReturnNil)))
   \<and> (batch w = [] \<longrightarrow>
        workerStep X CtxDone h w = (debug h ''worker shutting down (canceled)'' [], w, ReturnNil))"
proof -
  let ?sb = "\<lparr>Payload = event, sbType = ''event''\<rparr>"
  have recv_flush:
    "queue h = event # pending \<and> batchSize h \<le> int (length (batch w)) + 1 \<longrightarrow>
      fst (workerStep X QueueRecv h w)
        = fst (reportEventsToUmami X (h\<lparr>queue := pending\<rparr>) (batch w @ [?sb]))
      \<and> (snd (reportEventsToUmami X (h\<lparr>queue := pending\<rparr>) (batch w @ [?sb])) = None \<longrightarrow>
           snd (workerStep X QueueRecv h w)
             = (w\<lparr>batch := [], timer := batchMaxWait h, timerResets := Suc (timerResets w)\<rparr>,
                Continue))"
  proof (intro impI, elim conjE)
    assume q: "queue h = event # pending" and full: "batchSize h \<le> int (length (batch w)) + 1"
    let ?w1 = "w\<lparr>batch := batch w @ [?sb]\<rparr>"
    let ?h1 = "h\<lparr>queue := pending\<rparr>"
    have step: "workerStep X QueueRecv h w
                  = flushThen X ?h1 ?w1 (\<lambda>w. resetTimer ?h1 (w\<lparr>batch := []\<rparr>)) Continue"
      using q full by (simp add: Let_def)
    show "fst (workerStep X QueueRecv h w) = fst (reportEventsToUmami X ?h1 (batch w @ [?sb]))
          \<and> (snd (reportEventsToUmami X ?h1 (batch w @ [?sb])) = None \<longrightarrow>
               snd (workerStep X QueueRecv h w)
                 = (w\<lparr>batch := [], timer := batchMaxWait h, timerResets := Suc (timerResets w)\<rparr>,
                    Continue))"
      unfolding step using flushThen_no_fault [of X ?h1 ?w1]
      by (simp add: flushThen_fst resetTimer_def)
  qed
  have recv_append:
    "queue h = event # pending \<and> int (length (batch w)) + 1 < batchSize h \<longrightarrow>
        workerStep X QueueRecv h w = (h\<lparr>queue := pending\<rparr>, w\<lparr>batch := batch w @ [?sb]\<rparr>, Continue)"
    by (simp add: Let_def)
  have timer_flush:
    "batch w \<noteq> [] \<longrightarrow>
        fst (workerStep X TimeoutFired h w) = fst (reportEventsToUmami X h (batch w))
        \<and> (snd (reportEventsToUmami X h (batch w)) = None \<longrightarrow>
             snd (workerStep X TimeoutFired h w)
               = (w\<lparr>batch := [], timer := batchMaxWait h, timerResets := Suc (timerResets w)\<rparr>,
                  Continue))"
    using flushThen_no_fault [of X h w]
    by (simp add: flushThen_fst resetTimer_def)
  have timer_idle:
    "batch w = [] \<longrightarrow>
        workerStep X TimeoutFired h w
          = (h, w\<lparr>timer := batchMaxWait h, timerResets := Suc (timerResets w)\<rparr>, Continue)"
    by (simp add: resetTimer_def)
  have cancel_flush:
    "batch w \<noteq> [] \<longrightarrow>
        fst (workerStep X CtxDone h w)
          = fst (reportEventsToUmami X (debug h ''worker shutting down (canceled)'' []) (batch w))
        \<and> snd (snd (workerStep X CtxDone h w)) \<noteq> Continue
        \<and> (snd (reportEventsToUmami X (debug h ''worker shutting down (canceled)'' []) (batch w))
              = None \<longrightarrow>
             snd (workerStep X CtxDone h w) = (w, ReturnNil))"
    using flushThen_no_fault [of X "debug h ''worker shutting down (canceled)'' []" w "\<lambda>w. w" ReturnNil]
          flushThen_exit [of X "debug h ''worker shutting down (canceled)'' []" w "\<lambda>w. w" ReturnNil]
    by (auto simp: flushThen_fst Let_def)
  have cancel_idle:
    "batch w = [] \<longrightarrow>
        workerStep X CtxDone h w = (debug h ''worker shutting down (canceled)'' [], w, ReturnNil)"
    by (simp add: Let_def)
  from recv_flush recv_append timer_flush timer_idle cancel_flush cancel_idle
  show ?thesis by blast
qed

theorem workerStep_flush_triggers_witness:
  "queue (testFeeder\<lparr>queue := [testEvent ''/b'']\<rparr>) = testEvent ''/b'' # []
   \<and> batchSize (testFeeder\<lparr>queue := [testEvent ''/b'']\<rparr>)
       \<le> int (length (batch (testWorker [testBody ''/a'']))) + 1
   \<and> snd (reportEventsToUmami (testEnv [ok200, ok200]) (testFeeder\<lparr>queue := []\<rparr>)
            [testBody ''/a'', testBody ''/b'']) = None
   \<and> snd (workerStep (testEnv [ok200, ok200]) QueueRecv
            (testFeeder\<lparr>queue := [testEvent ''/b'']\<rparr>) (testWorker [testBody ''/a'']))
       = (\<lparr>batch = [], timer = Second, timerResets = 1\<rparr>, Continue)
   \<and> map reqBody (wire (fst (workerStep (testEnv [ok200, ok200]) QueueRecv
            (testFeeder\<lparr>queue := [testEvent ''/b'']\<rparr>) (testWorker [testBody ''/a'']))))
       = [Some (JEvent (testEvent ''/a'')), Some (JEvent (testEvent ''/b''))]
   \<and> int (length (batch (testWorker []))) + 1 < batchSize (testFeeder\<lparr>queue := [testEvent ''/b'']\<rparr>)
   \<and> workerStep (testEnv [ok200, ok200]) QueueRecv
        (testFeeder\<lparr>queue := [testEvent ''/b'']\<rparr>) (testWorker [])
       = (testFeeder, testWorker [testBody ''/b''], Continue)
   \<and> batch (testWorker [testBody ''/a'']) \<noteq> []
   \<and> snd (workerStep (testEnv [ok200, ok200]) TimeoutFired testFeeder (testWorker [testBody ''/a'']))
       = (\<lparr>batch = [], timer = Second, timerResets = 1\<rparr>, Continue)
   \<and> batch (testWorker []) = []
   \<and> workerStep (testEnv [ok200, ok200]) TimeoutFired testFeeder (testWorker [])
       = (testFeeder, \<lparr>batch = [], timer = Second, timerResets = 1\<rparr>, Continue)
   \<and> snd (workerStep (testEnv [ok200, ok200]) CtxDone testFeeder (testWorker [testBody ''/a'']))
       = (testWorker [testBody ''/a''], ReturnNil)
   \<and> workerStep (testEnv [ok200, ok200]) CtxDone testFeeder (testWorker [])
       = (testFeeder, testWorker [], ReturnNil)"
  using workerStep_flush_triggers
          [of "testFeeder\<lparr>queue := [testEvent ''/b'']\<rparr>" "testEvent ''/b''" "[]"
              "testWorker [testBody ''/a'']" "testEnv [ok200, ok200]"]
        workerStep_flush_triggers
          [of "testFeeder\<lparr>queue := [testEvent ''/b'']\<rparr>" "testEvent ''/b''" "[]"
              "testWorker []" "testEnv [ok200, ok200]"]
        workerStep_flush_triggers
          [of testFeeder "testEvent ''/b''" "[]" "testWorker [testBody ''/a'']" "testEnv [ok200, ok200]"]
        workerStep_flush_triggers
          [of testFeeder "testEvent ''/b''" "[]" "testWorker []" "testEnv [ok200, ok200]"]
  by (simp add: fixture_defs worker_defs)

subsection \<open>The supervising loop of the worker\<close>

lemma startWorker_single_run:
  "startWorker X schedule h starts
     = (case umamiEventFeeder X schedule h of
          (h', Waiting, rest) \<Rightarrow> (h', WorkerWaiting, Suc starts)
        | (h', Returned err, rest) \<Rightarrow> (h', WorkerReturned, Suc starts))"
proof (cases "umamiEventFeeder X schedule h")
  case (fields h' ret rest)
  with umamiEventFeeder_never_fails [of X schedule h] have "\<And>e. ret \<noteq> Returned (Some e)"
    by simp
  with fields show ?thesis
    by (subst startWorker.simps) (simp split: feeder_return.splits option.splits)
qed

text \<open>
  C1. The claim is that after a panic in a flush the supervising loop starts
  the worker loop again. The panic is recovered and logged, but
  \<^verbatim>\<open>umamiEventFeeder\<close> then returns \<^verbatim>\<open>nil\<close>, on which \<^verbatim>\<open>startWorker\<close>
  returns: \<^verbatim>\<open>umamiEventFeeder\<close> has been called once, and what is left of the
  schedule is never served. The same holds for the panic of the first
  \<^verbatim>\<open>make\<close>, before the loop.
\<close>

theorem startWorker_returns_after_panic:
  "(newWorker X h = Inr w0 \<and> feederLoop X schedule h w0 = (h', w', Fault p, rest) \<longrightarrow>
      startWorker X schedule h starts = (error h' (''panic: '' @ p), WorkerReturned, Suc starts))
   \<and> (newWorker X h = Inl q \<longrightarrow>
        startWorker X schedule h starts = (error h (''panic: '' @ q), WorkerReturned, Suc starts))"
  by (simp add: startWorker_single_run umamiEventFeeder_def)

theorem startWorker_returns_after_panic_witness:
  "(\<exists>w0 h' w'.
      newWorker (testEnv [Panic ''boom''])
          (testFeeder\<lparr>queueCap := 3, queue := [testEvent ''/a'', testEvent ''/b'', testEvent ''/c'']\<rparr>)
        = Inr w0
      \<and> feederLoop (testEnv [Panic ''boom'']) [QueueRecv, QueueRecv, QueueRecv, CtxDone]
               (testFeeder\<lparr>queueCap := 3, queue := [testEvent ''/a'', testEvent ''/b'', testEvent ''/c'']\<rparr>)
               w0
             = (h', w', Fault ''boom'', [QueueRecv, CtxDone])
      \<and> startWorker (testEnv [Panic ''boom'']) [QueueRecv, QueueRecv, QueueRecv, CtxDone]
               (testFeeder\<lparr>queueCap := 3, queue := [testEvent ''/a'', testEvent ''/b'', testEvent ''/c'']\<rparr>) 0
           = (error h' ''panic: boom'', WorkerReturned, 1)
      \<and> queue h' = [testEvent ''/c''] \<and> logged (error h' ''panic: boom'') = [ERR ''panic: boom''])
   \<and> newWorker (testEnv []) (testFeeder\<lparr>batchSize := - 1\<rparr>)
       = Inl ''runtime error: makeslice: cap out of range''
   \<and> startWorker (testEnv []) [QueueRecv, CtxDone] (testFeeder\<lparr>batchSize := - 1\<rparr>) 0
       = (error (testFeeder\<lparr>batchSize := - 1\<rparr>) ''panic: runtime error: makeslice: cap out of range'',
          WorkerReturned, 1)"
proof -
  let ?X = "testEnv [Panic ''boom'']"
  let ?h = "testFeeder\<lparr>queueCap := 3, queue := [testEvent ''/a'', testEvent ''/b'', testEvent ''/c'']\<rparr>"
  obtain w0 where start: "newWorker ?X ?h = Inr w0"
    and w0: "w0 = \<lparr>batch = [], timer = Second, timerResets = 0\<rparr>"
    by (simp add: fixture_defs newWorker_def)
  obtain h' w' where run:
    "feederLoop ?X [QueueRecv, QueueRecv, QueueRecv, CtxDone] ?h w0
     = (h', w', Fault ''boom'', [QueueRecv, CtxDone])"
    and after: "queue h' = [testEvent ''/c'']" "logged h' = []"
    unfolding w0 by (simp add: fixture_defs worker_defs)
  have broken: "newWorker (testEnv []) (testFeeder\<lparr>batchSize := - 1\<rparr>)
                  = Inl ''runtime error: makeslice: cap out of range''"
    by (simp add: fixture_defs newWorker_def)
  from startWorker_returns_after_panic
         [of ?X ?h w0 "[QueueRecv, QueueRecv, QueueRecv, CtxDone]" h' w' "''boom''"
             "[QueueRecv, CtxDone]" 0]
       start run
  have first: "startWorker ?X [QueueRecv, QueueRecv, QueueRecv, CtxDone] ?h 0
                 = (error h' ''panic: boom'', WorkerReturned, 1)"
    by simp
  from startWorker_returns_after_panic
         [of "testEnv []" "testFeeder\<lparr>batchSize := - 1\<rparr>" _ "[QueueRecv, CtxDone]" _ _ _ _ 0
             "''runtime error: makeslice: cap out of range''"]
       broken
  have second: "startWorker (testEnv []) [QueueRecv, CtxDone] (testFeeder\<lparr>batchSize := - 1\<rparr>) 0
       = (error (testFeeder\<lparr>batchSize := - 1\<rparr>) ''panic: runtime error: makeslice: cap out of range'',
          WorkerReturned, 1)"
    by simp
  from start run first after broken second show ?thesis
    by (simp add: error_keeps)
qed

subsection \<open>The connection retry loop\<close>

lemma errorLines_append: "errorLines (ls @ ms) = errorLines ls @ errorLines ms"
  by (induction ls rule: errorLines.induct) simp_all

lemma errorLines_debug: "errorLines (logged (debug h f v)) = errorLines (logged h)"
  by (simp add: debug_def errorLines_append)

lemma connect_missing:
  "host h = '''' \<or> apiKey h = '''' \<or> websites h = [] \<Longrightarrow>
   connect X h
     = (h, Err (if host h = '''' then ''`host` is not set''
                else if apiKey h = '''' then ''`apiKey` should be set''
                else ''`websites` should not be empty''))"
  by (auto simp: connect_def)

lemma retryConnection_missing:
  assumes "host h = '''' \<or> apiKey h = '''' \<or> websites h = []"
  shows "\<exists>h'. retryConnection X config (replicate n AfterDelay) k h = (h', Retrying, k + n)
           \<and> slept h' = slept h @ map currentDelay [k..<k + n]
           \<and> errorLines (logged h')
               = errorLines (logged h)
                 @ replicate n (''Failed to reconnect to Rybbit: ''
                     @ (if host h = '''' then ''`host` is not set''
                        else if apiKey h = '''' then ''`apiKey` should be set''
                        else ''`websites` should not be empty''))
           \<and> wire h' = wire h \<and> isDisabled h' = isDisabled h"
  using assms
proof (induction n arbitrary: k h)
  case 0
  then show ?case by simp
next
  case (Suc n)
  define msg where "msg = (if host h = '''' then ''`host` is not set''
                           else if apiKey h = '''' then ''`apiKey` should be set''
                           else ''`websites` should not be empty'')"
  define h1 where "h1 = (if k > 0
                         then debug h ''Next connection attempt in %v (attempt #%d).''
                                [ADur (currentDelay k), AInt (int k + 1)]
                         else h)"
  define h3 where "h3 = debug (h1\<lparr>slept := slept h1 @ [currentDelay k]\<rparr>)
                          ''Attempting to connect to Rybbit (attempt #%d)...'' [AInt (int (k + 1))]"
  define h4 where "h4 = error h3 (''Failed to reconnect to Rybbit: '' @ msg)"
  have fields1:
    "host h1 = host h" "apiKey h1 = apiKey h" "websites h1 = websites h" "wire h1 = wire h"
    "isDisabled h1 = isDisabled h" "slept h1 = slept h"
    "errorLines (logged h1) = errorLines (logged h)"
    by (simp_all add: h1_def debug_keeps errorLines_debug)
  have fields3:
    "host h3 = host h" "apiKey h3 = apiKey h" "websites h3 = websites h" "wire h3 = wire h"
    "isDisabled h3 = isDisabled h" "slept h3 = slept h @ [currentDelay k]"
    "errorLines (logged h3) = errorLines (logged h)"
    by (simp_all add: h3_def debug_keeps errorLines_debug fields1)
  have fields4:
    "host h4 = host h" "apiKey h4 = apiKey h" "websites h4 = websites h" "wire h4 = wire h"
    "isDisabled h4 = isDisabled h" "slept h4 = slept h @ [currentDelay k]"
    "errorLines (logged h4) = errorLines (logged h) @ [''Failed to reconnect to Rybbit: '' @ msg]"
    by (simp_all add: h4_def error_keeps errorLines_append fields3)
  have conn: "connect X h3 = (h3, Err msg)"
    using connect_missing [of h3 X] Suc.prems by (simp add: fields3 msg_def)
  have step: "retryConnection X config (replicate (Suc n) AfterDelay) k h
                = retryConnection X config (replicate n AfterDelay) (Suc k) h4"
    using conn unfolding h4_def h3_def h1_def by (simp add: Let_def)
  have still: "host h4 = '''' \<or> apiKey h4 = '''' \<or> websites h4 = []"
    using Suc.prems by (simp add: fields4)
  from Suc.IH [OF still, of "Suc k"] obtain h' where h':
    "retryConnection X config (replicate n AfterDelay) (Suc k) h4 = (h', Retrying, Suc k + n)"
    "slept h' = slept h4 @ map currentDelay [Suc k..<Suc k + n]"
    "errorLines (logged h')
       = errorLines (logged h4)
         @ replicate n (''Failed to reconnect to Rybbit: ''
             @ (if host h4 = '''' then ''`host` is not set''
                else if apiKey h4 = '''' then ''`apiKey` should be set''
                else ''`websites` should not be empty''))"
    "wire h' = wire h4" "isDisabled h' = isDisabled h4"
    by blast
  have range: "[k..<k + Suc n] = k # [Suc k..<Suc k + n]"
    by (simp add: upt_conv_Cons)
  have "retryConnection X config (replicate (Suc n) AfterDelay) k h = (h', Retrying, k + Suc n)"
    using step h'(1) by simp
  moreover have "slept h' = slept h @ map currentDelay [k..<k + Suc n]"
    unfolding h'(2) fields4 range by simp
  moreover have "errorLines (logged h')
       = errorLines (logged h) @ replicate (Suc n) (''Failed to reconnect to Rybbit: '' @ msg)"
    unfolding h'(3) fields4 msg_def by (simp add: replicate_append_same)
  moreover have "wire h' = wire h" "isDisabled h' = isDisabled h"
    by (simp_all add: h'(4,5) fields4)
  ultimately show ?case
    unfolding msg_def by blast
qed

text \<open>
  C2. The claim is that a missing host, API key or websites map is fatal at
  startup: logged once and never retried. \<^verbatim>\<open>connect\<close> reports each of the three
  as an error, and \<^verbatim>\<open>retryConnection\<close> treats every error of \<^verbatim>\<open>connect\<close> as
  a failed probe: after \<open>n\<close> expired delays it has made \<open>n\<close> attempts, waited the
  backoff delays, written \<open>n\<close> error lines, sent nothing, and is still retrying.
  Only an error of \<^verbatim>\<open>verifyConfig\<close> ends the loop.
\<close>

theorem retryConnection_retries_missing_config:
  "host h = '''' \<or> apiKey h = '''' \<or> websites h = [] \<Longrightarrow>
   \<exists>h'. retryConnection X config (replicate n AfterDelay) 0 h = (h', Retrying, n)
         \<and> slept h' = slept h @ map currentDelay [0..<n]
         \<and> errorLines (logged h')
             = errorLines (logged h)
               @ replicate n (''Failed to reconnect to Rybbit: ''
                   @ (if host h = '''' then ''`host` is not set''
                      else if apiKey h = '''' then ''`apiKey` should be set''
                      else ''`websites` should not be empty''))
         \<and> wire h' = wire h \<and> isDisabled h' = isDisabled h"
  using retryConnection_missing [of h X config n 0] by simp

theorem retryConnection_retries_missing_config_witness:
  "host (testFeeder\<lparr>host := '''', isDisabled := True\<rparr>) = ''''
   \<and> (\<exists>h'. retryConnection (testEnv []) testConfig (replicate 3 AfterDelay) 0
               (testFeeder\<lparr>host := '''', isDisabled := True\<rparr>) = (h', Retrying, 3)
          \<and> slept h' = [0, 30 * Second, 60 * Second]
          \<and> errorLines (logged h')
              = [''Failed to reconnect to Rybbit: `host` is not set'',
                 ''Failed to reconnect to Rybbit: `host` is not set'',
                 ''Failed to reconnect to Rybbit: `host` is not set'']
          \<and> isDisabled h')"
proof -
  let ?h = "testFeeder\<lparr>host := '''', isDisabled := True\<rparr>"
  have unset: "host ?h = ''''"
    by simp
  then have "host ?h = '''' \<or> apiKey ?h = '''' \<or> websites ?h = []"
    by blast
  from retryConnection_retries_missing_config [OF this, of "testEnv []" testConfig 3]
  obtain h' where run:
    "retryConnection (testEnv []) testConfig (replicate 3 AfterDelay) 0 ?h = (h', Retrying, 3)"
    and waited: "slept h' = slept ?h @ map currentDelay [0..<3]"
    and lines: "errorLines (logged h')
                  = errorLines (logged ?h)
                    @ replicate 3 (''Failed to reconnect to Rybbit: ''
                        @ (if host ?h = '''' then ''`host` is not set''
                           else if apiKey ?h = '''' then ''`apiKey` should be set''
                           else ''`websites` should not be empty''))"
    and flag: "isDisabled h' = isDisabled ?h"
    by blast
  have "slept h' = [0, 30 * Second, 60 * Second]"
    unfolding waited by (simp add: testFeeder_def currentDelay_def upt_rec numeral_3_eq_3)
  moreover have "errorLines (logged h')
              = [''Failed to reconnect to Rybbit: `host` is not set'',
                 ''Failed to reconnect to Rybbit: `host` is not set'',
                 ''Failed to reconnect to Rybbit: `host` is not set'']"
    unfolding lines by (simp add: testFeeder_def numeral_3_eq_3)
  moreover have "isDisabled h'"
    unfolding flag by simp
  ultimately show ?thesis
    using unset run by blast
qed

text \<open>
  For comparison, the path that is fatal: a configuration whose second ignored
  address does not parse. After one failed and one successful probe the loop
  ends with the plugin disabled, one configuration error logged, no retry.
\<close>

lemma retryConnection_invalid_prefix_is_fatal:
  "(case retryConnection (testEnv [Err ''refused'', ok200])
           (testConfig\<lparr>IgnoreIPs := [''10.0.0.0/8'', ''bad'']\<rparr>) (replicate 5 AfterDelay) 0
           (testFeeder\<lparr>isDisabled := True\<rparr>) of
      (h', ex, attempts) \<Rightarrow>
        ex = Fatal \<and> attempts = 2 \<and> isDisabled h' \<and> slept h' = [0, 30 * Second]
        \<and> errorLines (logged h')
            = [''Failed to reconnect to Rybbit: Failed to get health for rybbit: refused'',
               ''configuration error, the plugin is disabled: invalid ignoreIp given bad: unable to parse IP''])"
  by (simp add: fixture_defs worker_defs connect_def verifyConfig_def currentDelay_def
        ipv4ParsePrefix_def ipv4ParseAddr_def decOctet_def numeral_eq_Suc)

subsection \<open>The channel between requests and worker\<close>

lemma reportEvents_channel:
  "queue (fst (reportEvents X h events)) = queue h
   \<and> queueCap (fst (reportEvents X h events)) = queueCap h
   \<and> receiver (fst (reportEvents X h events)) = receiver h"
proof (induction events arbitrary: h)
  case Nil
  then show ?case by simp
next
  case (Cons val events)
  show ?case
  proof (cases "network X (length (wire h))
                  \<lparr>reqMethod = POST, reqURL = host h @ ''/api/track'',
                   reqBody = Some (JEvent (Payload val))\<rparr>")
    case (Ok resp)
    show ?thesis
      unfolding reportEvents_Cons Ok result.case
      by (simp add: Cons.IH debug_keeps)
  next
    case (Err e)
    show ?thesis
      unfolding reportEvents_Cons Err result.case
      by (simp add: error_keeps)
  next
    case (Panic p)
    show ?thesis
      unfolding reportEvents_Cons Panic result.case
      by simp
  qed
qed

lemma flushThen_channel:
  "queue (fst (flushThen X h w after ex)) = queue h
   \<and> queueCap (fst (flushThen X h w after ex)) = queueCap h
   \<and> receiver (fst (flushThen X h w after ex)) = receiver h"
  using reportEvents_channel
          [of X "debug h ''reporting %d events'' [AInt (int (length (batch w)))]" "batch w"]
  by (simp add: flushThen_fst reportEventsToUmami_def debug_keeps)

lemma workerStep_channel:
  "queueCap (fst (workerStep X sel h w)) = queueCap h
   \<and> receiver (fst (workerStep X sel h w)) = receiver h
   \<and> queue (fst (workerStep X sel h w))
       = (if sel = QueueRecv then tl (queue h) else queue h)"
proof (cases sel)
  case CtxDone
  then show ?thesis
    by (simp add: Let_def flushThen_channel debug_keeps)
next
  case QueueRecv
  then show ?thesis
    by (cases "queue h") (simp_all add: Let_def flushThen_channel)
next
  case TimeoutFired
  then show ?thesis
    by (simp add: flushThen_channel)
qed

text \<open>
  The worker loop keeps the buffer within its capacity as well: an iteration
  takes at most one event out of the buffer, and the event the worker was
  handed never enters it.
\<close>

lemma woken_step_within:
  "length (queue h) \<le> queueCap h \<Longrightarrow>
   length (queue (fst (workerStep X (taken h sel) (wake h) w)))
     \<le> queueCap (fst (workerStep X (taken h sel) (wake h) w))"
proof (cases "receiver h")
  case (Handed event)
  then have woken: "taken h sel = QueueRecv" "queue (wake h) = event # queue h"
    "queueCap (wake h) = queueCap h"
    by (simp_all add: taken_def wake_def)
  assume "length (queue h) \<le> queueCap h"
  with workerStep_channel [of X QueueRecv "wake h" w] show ?thesis
    unfolding woken by simp
next
  case Absent
  assume "length (queue h) \<le> queueCap h"
  with Absent workerStep_channel [of X sel "h\<lparr>receiver := Absent\<rparr>" w] show ?thesis
    by (auto simp: wake_def taken_def simp del: workerStep.simps)
next
  case Blocked
  assume "length (queue h) \<le> queueCap h"
  with Blocked workerStep_channel [of X sel "h\<lparr>receiver := Absent\<rparr>" w] show ?thesis
    by (auto simp: wake_def taken_def simp del: workerStep.simps)
qed

lemma feederLoop_within:
  "length (queue h) \<le> queueCap h \<Longrightarrow>
   length (queue (fst (feederLoop X schedule h w))) \<le> queueCap (fst (feederLoop X schedule h w))"
proof (induction schedule arbitrary: h w)
  case Nil
  then show ?case by (simp add: park_def)
next
  case (Cons sel schedule)
  obtain h1 w1 ex1 where step: "workerStep X (taken h sel) (wake h) w = (h1, w1, ex1)"
    by (cases "workerStep X (taken h sel) (wake h) w") auto
  with woken_step_within [OF Cons.prems, of X sel w] have b1: "length (queue h1) \<le> queueCap h1"
    by simp
  show ?case
  proof (cases ex1)
    case Continue
    with step Cons.IH [OF b1, of w1] show ?thesis by simp
  next
    case ReturnNil
    with step b1 show ?thesis by simp
  next
    case (Fault p)
    with step b1 show ?thesis by simp
  qed
qed

text \<open>
  A run over a channel without buffer. The worker is started and waits in its
  \<^verbatim>\<open>select\<close>; a request is served and its event handed to the worker, with
  nothing logged; a second request finds the worker not yet back and its event
  is dropped; the worker then takes the first event into its batch and, on
  cancellation, delivers it.
\<close>

lemma unbuffered_handoff_run:
  "(case startWorker (testEnv [ok200]) [] (testFeeder\<lparr>queueCap := 0\<rparr>) 0 of
      (h1, status, starts) \<Rightarrow>
        status = WorkerWaiting \<and> receiver h1 = Blocked
        \<and> (case ServeHTTP (testEnv [ok200]) (\<lambda>r. [200]) h1 testRequest of
              (h2, codes) \<Rightarrow>
                receiver h2 = Handed (testEvent ''/pricing'') \<and> queue h2 = [] \<and> logged h2 = []
                \<and> (case ServeHTTP (testEnv [ok200]) (\<lambda>r. [200]) h2 testRequest of
                      (h3, codes) \<Rightarrow>
                        receiver h3 = Handed (testEvent ''/pricing'') \<and> queue h3 = []
                        \<and> logged h3 = [ERR ''failed to submit event: queue full'']
                        \<and> (case feederLoop (testEnv [ok200]) [TimeoutFired, CtxDone] h3 (testWorker []) of
                              (h4, w4, ex, rest) \<Rightarrow>
                                ex = ReturnNil \<and> rest = [] \<and> receiver h4 = Absent \<and> queue h4 = []
                                \<and> map reqBody (wire h4) = [Some (JEvent (testEvent ''/pricing''))]))))"
  by (simp add: startWorker_single_run fixture_defs worker_defs filter_defs enqueue_defs)

text \<open>
  \<^verbatim>\<open>New\<close> with a queue size that \<^verbatim>\<open>make\<close> refuses, negative or too large.
\<close>

lemma New_refused_sizes:
  "New (testEnv []) (testConfig\<lparr>QueueSize := - 1\<rparr>) ''rybbit'' = Inl ''makechan: size out of range''
   \<and> New (testEnv []) (testConfig\<lparr>QueueSize := 9223372036854775807\<rparr>) ''rybbit''
       = Inl ''makechan: size out of range''"
  by (simp add: New_def fixture_defs)

end
